theory Spec2Isabelle
  imports Main "HOL-Library.AList" "HOL-Library.Sublist"
begin

section \<open>The Kafka consumer of the Python SDK (eda\_sdk/consumer.py)\<close>

text \<open>
  The theory embeds \<^verbatim>\<open>eda_sdk/consumer.py\<close> (class \<^verbatim>\<open>Consumer\<close>) and
  \<^verbatim>\<open>eda_sdk/types.py\<close>. The consumer is sequential code whose every interesting step
  is a call into a collaborator: the broker client (confluent\_kafka), the CloudEvents
  library, \<^verbatim>\<open>json.dumps\<close>, the Core (the policy delegate) and the user's handler. Each
  collaborator is a field of a record and answers as a function of its arguments; a call
  either returns a value or raises. Every call and every log line is appended to a trace
  of actions, so that "is called", "is not called" and "is called before" are statements
  about the trace.

  Python \<^verbatim>\<open>str\<close> values are represented by their UTF-8 bytes, so that
  \<^verbatim>\<open>s.encode("utf-8")\<close> is the identity and \<^verbatim>\<open>str\<close> and \<^verbatim>\<open>bytes\<close> are both
  \<^typ>\<open>string\<close>.
\<close>

subsection \<open>Values and exceptions\<close>

type_synonym bytes = string

datatype pyval =
    PyNone
  | PyBool bool
  | PyInt int
  | PyStr string
  | PyBytes bytes
  | PyList "pyval list"
  | PyDict "(string \<times> pyval) list"

text \<open>
  What a collaborator may raise: an instance of \<^verbatim>\<open>Exception\<close> (with its \<^verbatim>\<open>str()\<close>),
  or one of the two exceptions that derive from \<^verbatim>\<open>BaseException\<close> only.
\<close>

datatype raised = Exception string | KeyboardInterrupt | SystemExit

text \<open>
  What propagates inside the consumer: an exception of a collaborator, or one the
  consumer's own code raises (\<^verbatim>\<open>RuntimeError\<close>, \<^verbatim>\<open>KafkaException\<close>) or the
  interpreter raises on its behalf (\<^verbatim>\<open>AttributeError\<close>).
\<close>

datatype exn =
    External raised
  | RuntimeError string
  | KafkaException string
  | AttributeError string

fun is_Exception :: "exn \<Rightarrow> bool" where
  "is_Exception (External (Exception s)) = True"
| "is_Exception (External KeyboardInterrupt) = False"
| "is_Exception (External SystemExit) = False"
| "is_Exception (RuntimeError s) = True"
| "is_Exception (KafkaException s) = True"
| "is_Exception (AttributeError s) = True"

fun exn_str :: "exn \<Rightarrow> string" where
  "exn_str (External (Exception s)) = s"
| "exn_str (External KeyboardInterrupt) = ''''"
| "exn_str (External SystemExit) = ''''"
| "exn_str (RuntimeError s) = s"
| "exn_str (KafkaException s) = s"
| "exn_str (AttributeError s) = s"

subsection \<open>Data model (types.py and the libraries' message types)\<close>

datatype DestinationType =
    KAFKA
  | RABBITMQ
  | HTTP
  | DISCARD
  | Other "int option" string "string option" string

text \<open>
  \<^verbatim>\<open>DestinationType\<close> is an \<^verbatim>\<open>IntEnum\<close> with the four members. The annotation
  \<^verbatim>\<open>type: DestinationType\<close> of \<^verbatim>\<open>OutputDestination\<close> is not enforced at run time, and
  the router has a branch for anything else. \<open>Other v t n r\<close> is an object that is not
  one of the members: \<open>v\<close> is the integer it compares equal to (\<open>None\<close> when it is
  equal to no integer), \<open>t\<close> the name of its type, \<open>n\<close> its \<^verbatim>\<open>.name\<close> attribute when
  it has one, \<open>r\<close> its \<^verbatim>\<open>str()\<close>. The plain integer 0 is \<open>Other (Some 0) ''int'' None ''0''\<close>.
\<close>

text \<open>
  The values of types.py. \<^verbatim>\<open>x == DestinationType.M\<close> on an \<^verbatim>\<open>IntEnum\<close> is equality
  of integers, so an object that is not a member equals \<^verbatim>\<open>M\<close> when its integer is
  the value of \<^verbatim>\<open>M\<close>.
\<close>

fun int_value :: "DestinationType \<Rightarrow> int option" where
  "int_value KAFKA = Some 0"
| "int_value RABBITMQ = Some 1"
| "int_value HTTP = Some 2"
| "int_value DISCARD = Some 3"
| "int_value (Other v t n r) = v"

definition quoted :: "string \<Rightarrow> string" where
  "quoted s = CHR 0x27 # s @ [CHR 0x27]"

text \<open>
  \<^verbatim>\<open>dest.type.name\<close>: the member's name, the attribute of another object, or the
  interpreter's \<^verbatim>\<open>AttributeError\<close> for an object without it.
\<close>

fun name_attr :: "DestinationType \<Rightarrow> exn + string" where
  "name_attr KAFKA = Inr ''KAFKA''"
| "name_attr RABBITMQ = Inr ''RABBITMQ''"
| "name_attr HTTP = Inr ''HTTP''"
| "name_attr DISCARD = Inr ''DISCARD''"
| "name_attr (Other v t (Some n) r) = Inr n"
| "name_attr (Other v t None r) =
     Inl (AttributeError (quoted t @ '' object has no attribute '' @ quoted ''name''))"

record KafkaConfig =
  broker :: string
  topic :: string
  group :: string

record OutputDestination =
  dest_type :: DestinationType
  target :: string
  cluster :: "string option"

text \<open>
  \<^verbatim>\<open>cloudevents.http.CloudEvent\<close> holds a mapping of attributes and, apart from it, the
  payload (\<^verbatim>\<open>CloudEvent(attributes, data)\<close>, read back as \<^verbatim>\<open>event.data\<close>). The
  consumer reads an event through \<^verbatim>\<open>event[k]\<close> and \<^verbatim>\<open>k in event\<close>, and both look at
  the attribute mapping only: the payload is not a key. The constructor fills in
  \<^verbatim>\<open>specversion\<close>, \<^verbatim>\<open>id\<close> and \<^verbatim>\<open>time\<close> when they are not given and refuses an event
  without \<^verbatim>\<open>source\<close> or \<^verbatim>\<open>type\<close>, so these five are keys of every event.
  \<open>ce_extensions\<close> holds the attributes besides these five (\<^verbatim>\<open>datacontenttype\<close> and
  any other), \<open>ce_payload\<close> the payload.
\<close>

record CloudEvent =
  ce_specversion :: string
  ce_type :: string
  ce_source :: string
  ce_id :: string
  ce_time :: pyval
  ce_extensions :: "(string \<times> pyval) list"
  ce_payload :: "pyval option"

text \<open>The attribute mapping, and \<^verbatim>\<open>event[k]\<close> for a key that is \<^verbatim>\<open>in event\<close>.\<close>

definition attributes :: "CloudEvent \<Rightarrow> (string \<times> pyval) list" where
  "attributes ev =
     [(''specversion'', PyStr (ce_specversion ev)),
      (''type'', PyStr (ce_type ev)),
      (''source'', PyStr (ce_source ev)),
      (''id'', PyStr (ce_id ev)),
      (''time'', ce_time ev)] @ ce_extensions ev"

definition getitem :: "CloudEvent \<Rightarrow> string \<Rightarrow> pyval option" where
  "getitem ev k = map_of (attributes ev) k"

record KafkaError =
  code :: int
  err_str :: string

text \<open>A header value as \<^verbatim>\<open>Message.headers()\<close> may hold it.\<close>

datatype header_val = HNone | HStr string | HBytes bytes | HOther

text \<open>\<^verbatim>\<open>confluent_kafka.Message\<close>: \<^verbatim>\<open>error()\<close>, \<^verbatim>\<open>value()\<close>, \<^verbatim>\<open>headers()\<close>, \<^verbatim>\<open>key()\<close>.\<close>

record Message =
  msg_error :: "KafkaError option"
  msg_value :: "bytes option"
  msg_headers :: "(string \<times> header_val) list option"
  msg_key :: "bytes option"

text \<open>\<^verbatim>\<open>cloudevents.kafka.KafkaMessage\<close>; the \<^verbatim>\<open>headers\<close> dict keeps insertion order.\<close>

record KafkaMessage =
  km_headers :: "(string \<times> bytes) list"
  km_key :: "bytes option"
  km_value :: bytes

text \<open>\<^verbatim>\<open>KafkaError._PARTITION_EOF\<close> of confluent\_kafka (librdkafka's code -191).\<close>

definition PARTITION_EOF :: int where
  "PARTITION_EOF = - 191"

datatype conf_val = CStr string | CBool bool

type_synonym conf = "(string \<times> conf_val) list"

datatype KafkaConsumer = KafkaConsumer conf

datatype Producer = Producer conf

subsection \<open>Collaborators\<close>

text \<open>The Core protocol (core.py), as far as the consumer calls it.\<close>

record Core =
  get_kafka_config :: "raised + KafkaConfig"
  should_retry :: "string \<Rightarrow> int \<Rightarrow> raised + bool"
  calculate_backoff :: "int \<Rightarrow> raised + int"
  get_output_destination :: "string \<Rightarrow> raised + OutputDestination"
  core_close :: "raised option"

text \<open>
  The user's handler: its \<^verbatim>\<open>__annotations__\<close> (absent when the object has no such
  attribute) and what a call does. An annotation is \<^verbatim>\<open>None\<close> or an object with the
  given \<^verbatim>\<open>str()\<close>.
\<close>

datatype annotation = AnnNone | Ann string

record Handler =
  annotations :: "(string \<times> annotation) list option"
  call :: "CloudEvent \<Rightarrow> raised + CloudEvent option"

text \<open>
  The libraries: cloudevents.kafka, confluent\_kafka, json. In cloudevents.kafka,
  \<^verbatim>\<open>from_structured\<close> decodes the JSON document in the message value (structured content
  mode) and \<^verbatim>\<open>from_binary\<close> takes the attributes from the \<^verbatim>\<open>ce_\<close> headers and the data
  from the value (binary content mode).
\<close>

record Libs =
  from_structured :: "KafkaMessage \<Rightarrow> raised + CloudEvent"
  from_binary :: "KafkaMessage \<Rightarrow> raised + CloudEvent"
  json_dumps :: "(string \<times> pyval) list \<Rightarrow> raised + string"
  new_consumer :: "conf \<Rightarrow> raised option"
  subscribe :: "string list \<Rightarrow> raised option"
  consumer_close :: "raised option"
  new_producer :: "conf \<Rightarrow> raised option"
  produce :: "string \<Rightarrow> bytes \<Rightarrow> bytes \<Rightarrow> raised option"
  flush :: "int option \<Rightarrow> raised option"

subsection \<open>Trace\<close>

datatype level = INFO | WARNING | ERROR

datatype action =
    Log level string
  | GetKafkaConfig
  | NewConsumer conf
  | Subscribe "string list"
  | NewProducer conf
  | Poll
  | FromStructured KafkaMessage
  | FromBinary KafkaMessage
  | CallHandler CloudEvent
  | ShouldRetry string int
  | CalculateBackoff int
  | JsonDumps "(string \<times> pyval) list"
  | GetOutputDestination string
  | Produce string bytes bytes
  | Flush "int option"
  | ConsumerClose
  | CoreClose

subsection \<open>The consumer object\<close>

record Consumer =
  core :: Core
  handler :: Handler
  consumer :: "KafkaConsumer option"
  producer :: "Producer option"
  is_output_handler :: bool

subsection \<open>\<^verbatim>\<open>Consumer._parse_cloud_event\<close>\<close>

text \<open>
  The loop over \<^verbatim>\<open>msg.headers()\<close>: a \<^verbatim>\<open>None\<close> value is dropped, a \<^verbatim>\<open>str\<close> is
  encoded, \<^verbatim>\<open>bytes\<close> are kept, anything else is dropped; a later entry with the same
  key overwrites the earlier one in place, as a dict assignment does.
\<close>

fun convert_headers :: "(string \<times> header_val) list \<Rightarrow> (string \<times> bytes) list \<Rightarrow> (string \<times> bytes) list" where
  "convert_headers [] hs = hs"
| "convert_headers ((k, v) # rest) hs =
     convert_headers rest
       (case v of
          HNone \<Rightarrow> hs
        | HStr s \<Rightarrow> AList.update k s hs
        | HBytes b \<Rightarrow> AList.update k b hs
        | HOther \<Rightarrow> hs)"

definition to_kafka_message :: "Message \<Rightarrow> bytes \<Rightarrow> KafkaMessage" where
  "to_kafka_message m v =
     \<lparr>km_headers = (case msg_headers m of None \<Rightarrow> [] | Some hs \<Rightarrow> convert_headers hs []),
      km_key = msg_key m,
      km_value = v\<rparr>"

definition parse_cloud_event :: "Libs \<Rightarrow> Message \<Rightarrow> (exn + CloudEvent option) \<times> action list" where
  "parse_cloud_event lib m =
     (case msg_value m of
        None \<Rightarrow> (Inr None, [Log WARNING ''Received message with None value, skipping''])
      | Some v \<Rightarrow>
          (let km = to_kafka_message m v in
           case from_structured lib km of
             Inr ev \<Rightarrow> (Inr (Some ev), [FromStructured km])
           | Inl r1 \<Rightarrow>
               if \<not> is_Exception (External r1) then (Inl (External r1), [FromStructured km])
               else
                 (case from_binary lib km of
                    Inr ev \<Rightarrow> (Inr (Some ev), [FromStructured km, FromBinary km])
                  | Inl r2 \<Rightarrow>
                      if \<not> is_Exception (External r2)
                      then (Inl (External r2), [FromStructured km, FromBinary km])
                      else (Inr None,
                            [FromStructured km, FromBinary km,
                             Log WARNING (''Failed to parse CloudEvent: '' @ exn_str (External r2))]))))"

subsection \<open>Sequencing\<close>

text \<open>
  A computation is its result (\<open>Inl\<close> the exception that propagates) and the actions it
  performed. \<open>seq\<close> is one statement after another: the second runs only when the first
  returned. \<open>except_Exception\<close> is \<^verbatim>\<open>try: ... except Exception as e: ...\<close>.
\<close>

type_synonym 'a comp = "(exn + 'a) \<times> action list"

definition ret :: "'a \<Rightarrow> 'a comp" where
  "ret x = (Inr x, [])"

definition raise :: "exn \<Rightarrow> 'a comp" where
  "raise e = (Inl e, [])"

definition log :: "level \<Rightarrow> string \<Rightarrow> unit comp" where
  "log lvl s = (Inr (), [Log lvl s])"

definition perform :: "action \<Rightarrow> raised + 'a \<Rightarrow> 'a comp" where
  "perform a r = (case r of Inl x \<Rightarrow> (Inl (External x), [a]) | Inr v \<Rightarrow> (Inr v, [a]))"

definition perform_unit :: "action \<Rightarrow> raised option \<Rightarrow> unit comp" where
  "perform_unit a r = (case r of Some x \<Rightarrow> (Inl (External x), [a]) | None \<Rightarrow> (Inr (), [a]))"

definition seq :: "'a comp \<Rightarrow> ('a \<Rightarrow> 'b comp) \<Rightarrow> 'b comp" where
  "seq m f =
     (case m of
        (Inl e, tr) \<Rightarrow> (Inl e, tr)
      | (Inr x, tr) \<Rightarrow> (case f x of (r, tr') \<Rightarrow> (r, tr @ tr')))"

definition except_Exception :: "'a comp \<Rightarrow> (exn \<Rightarrow> 'a comp) \<Rightarrow> 'a comp" where
  "except_Exception m h =
     (case m of
        (Inl e, tr) \<Rightarrow>
          if is_Exception e then (case h e of (r, tr') \<Rightarrow> (r, tr @ tr')) else (Inl e, tr)
      | (Inr x, tr) \<Rightarrow> (Inr x, tr))"

subsection \<open>\<^verbatim>\<open>Consumer._detect_output_handler\<close> and \<^verbatim>\<open>Consumer.__init__\<close>\<close>

text \<open>\<^verbatim>\<open>"CloudEvent" in str(return_type)\<close> is the contiguous-sublist test.\<close>

definition detect_output_handler :: "Handler \<Rightarrow> bool" where
  "detect_output_handler h =
     (case annotations h of
        None \<Rightarrow> False
      | Some d \<Rightarrow>
          (case map_of d ''return'' of
             None \<Rightarrow> False
           | Some AnnNone \<Rightarrow> False
           | Some (Ann s) \<Rightarrow> sublist ''CloudEvent'' s))"

definition consumer_conf :: "KafkaConfig \<Rightarrow> conf" where
  "consumer_conf config =
     [(''bootstrap.servers'', CStr (broker config)),
      (''group.id'', CStr (group config)),
      (''auto.offset.reset'', CStr ''earliest''),
      (''enable.auto.commit'', CBool True)]"

definition producer_conf :: "KafkaConfig \<Rightarrow> conf" where
  "producer_conf config = [(''bootstrap.servers'', CStr (broker config))]"

definition init :: "Libs \<Rightarrow> Core \<Rightarrow> Handler \<Rightarrow> Consumer comp" where
  "init lib cr h =
     (let is_out = detect_output_handler h in
      seq (perform GetKafkaConfig (get_kafka_config cr)) (\<lambda>config.
      seq (log INFO ''Kafka configuration loaded'') (\<lambda>_.
      seq (perform_unit (NewConsumer (consumer_conf config)) (new_consumer lib (consumer_conf config))) (\<lambda>_.
      seq (perform_unit (Subscribe [topic config]) (subscribe lib [topic config])) (\<lambda>_.
      seq (log INFO (''Subscribed to topic: '' @ topic config)) (\<lambda>_.
      if is_out then
        seq (perform_unit (NewProducer (producer_conf config)) (new_producer lib (producer_conf config))) (\<lambda>_.
        seq (log INFO ''Kafka producer initialized for output events'') (\<lambda>_.
        ret \<lparr>core = cr, handler = h,
             consumer = Some (KafkaConsumer (consumer_conf config)),
             producer = Some (Producer (producer_conf config)),
             is_output_handler = is_out\<rparr>))
      else
        ret \<lparr>core = cr, handler = h,
             consumer = Some (KafkaConsumer (consumer_conf config)),
             producer = None,
             is_output_handler = is_out\<rparr>))))))"

subsection \<open>\<^verbatim>\<open>Consumer._publish_to_kafka\<close> and \<^verbatim>\<open>Consumer._publish_output_event\<close>\<close>

text \<open>
  The dict both functions build: the four required keys, then
  \<^verbatim>\<open>if k in event: event_dict[k] = event[k]\<close> for \<^verbatim>\<open>time\<close>, \<^verbatim>\<open>datacontenttype\<close> and
  \<^verbatim>\<open>data\<close>, in this order.
\<close>

definition event_dict :: "CloudEvent \<Rightarrow> (string \<times> pyval) list" where
  "event_dict ev =
     (let d0 = [(''specversion'', PyStr (ce_specversion ev)),
                (''type'', PyStr (ce_type ev)),
                (''source'', PyStr (ce_source ev)),
                (''id'', PyStr (ce_id ev))];
          d1 = (case getitem ev ''time'' of None \<Rightarrow> d0 | Some v \<Rightarrow> AList.update ''time'' v d0);
          d2 = (case getitem ev ''datacontenttype'' of None \<Rightarrow> d1
                | Some v \<Rightarrow> AList.update ''datacontenttype'' v d1);
          d3 = (case getitem ev ''data'' of None \<Rightarrow> d2 | Some v \<Rightarrow> AList.update ''data'' v d2)
      in d3)"

definition publish_to_kafka :: "Libs \<Rightarrow> Consumer \<Rightarrow> CloudEvent \<Rightarrow> string \<Rightarrow> unit comp" where
  "publish_to_kafka lib c ev tpc =
     (case producer c of
        None \<Rightarrow> raise (RuntimeError ''Producer not initialized'')
      | Some p \<Rightarrow>
          seq (perform (JsonDumps (event_dict ev)) (json_dumps lib (event_dict ev))) (\<lambda>event_json.
          seq (perform_unit (Produce tpc event_json (ce_id ev)) (produce lib tpc event_json (ce_id ev))) (\<lambda>_.
          seq (perform_unit (Flush None) (flush lib None)) (\<lambda>_.
          log INFO (''Published output event to Kafka topic: '' @ tpc)))))"

text \<open>
  The log line before the branches reads \<^verbatim>\<open>dest.type.name\<close>, so an object without
  this attribute raises there; \<open>nm\<close> is the name read. The branches are
  \<^verbatim>\<open>== KAFKA\<close>, \<^verbatim>\<open>== DISCARD\<close>, \<^verbatim>\<open>in (HTTP, RABBITMQ)\<close>, else: a member takes its own,
  another object the one of the member it is equal to, or the last.
\<close>

definition publish_output_event :: "Libs \<Rightarrow> Consumer \<Rightarrow> CloudEvent \<Rightarrow> unit comp" where
  "publish_output_event lib c ev =
     (case producer c of
        None \<Rightarrow> raise (RuntimeError ''Producer not initialized'')
      | Some p \<Rightarrow>
          seq (perform (JsonDumps (event_dict ev)) (json_dumps lib (event_dict ev))) (\<lambda>event_json.
          seq (perform (GetOutputDestination event_json) (get_output_destination (core c) event_json)) (\<lambda>dest.
          seq (case name_attr (dest_type dest) of
                 Inl e \<Rightarrow> raise e
               | Inr nm \<Rightarrow> seq (log INFO ''Routing output event'') (\<lambda>_. ret nm)) (\<lambda>nm.
          case dest_type dest of
            KAFKA \<Rightarrow> publish_to_kafka lib c ev (target dest)
          | DISCARD \<Rightarrow> log INFO (''Discarding output event: '' @ ce_type ev)
          | HTTP \<Rightarrow> log WARNING (''Destination type '' @ nm @ '' not yet implemented, discarding event'')
          | RABBITMQ \<Rightarrow> log WARNING (''Destination type '' @ nm @ '' not yet implemented, discarding event'')
          | Other v t n r \<Rightarrow>
              if v = int_value KAFKA then publish_to_kafka lib c ev (target dest)
              else if v = int_value DISCARD then log INFO (''Discarding output event: '' @ ce_type ev)
              else if v = int_value HTTP \<or> v = int_value RABBITMQ then
                log WARNING (''Destination type '' @ nm @ '' not yet implemented, discarding event'')
              else raise (RuntimeError (''Unknown destination type: '' @ r))))))"

subsection \<open>\<^verbatim>\<open>Consumer._invoke_handler\<close>\<close>

definition invoke_handler :: "Libs \<Rightarrow> Consumer \<Rightarrow> CloudEvent \<Rightarrow> unit comp" where
  "invoke_handler lib c ev =
     (if is_output_handler c then
        seq (perform (CallHandler ev) (call (handler c) ev)) (\<lambda>output_event.
        case output_event of
          None \<Rightarrow> ret ()
        | Some out \<Rightarrow> publish_output_event lib c out)
      else
        seq (perform (CallHandler ev) (call (handler c) ev)) (\<lambda>_. ret ()))"

subsection \<open>\<^verbatim>\<open>Consumer.close\<close>\<close>

text \<open>
  Three statements in a row, none of them inside a \<^verbatim>\<open>try\<close>. The Core is an argument
  of the constructor and is used there, so \<^verbatim>\<open>self.core is not None\<close> holds.
\<close>

definition close :: "Libs \<Rightarrow> Consumer \<Rightarrow> unit comp" where
  "close lib c =
     seq (case producer c of
            None \<Rightarrow> ret ()
          | Some p \<Rightarrow> seq (perform_unit (Flush (Some 5)) (flush lib (Some 5))) (\<lambda>_.
                      log INFO ''Producer flushed'')) (\<lambda>_.
     seq (case consumer c of
            None \<Rightarrow> ret ()
          | Some k \<Rightarrow> seq (perform_unit ConsumerClose (consumer_close lib)) (\<lambda>_.
                      log INFO ''Consumer closed'')) (\<lambda>_.
     seq (perform_unit CoreClose (core_close (core c))) (\<lambda>_.
     log INFO ''Core closed'')))"

subsection \<open>\<^verbatim>\<open>Consumer.start\<close>\<close>

text \<open>What one call of \<^verbatim>\<open>self._consumer.poll(timeout=0.1)\<close> gives.\<close>

datatype poll_result = PollNone | PollMsg Message | PollRaise raised

definition max_consecutive_errors :: nat where
  "max_consecutive_errors = 5"

text \<open>The inner \<^verbatim>\<open>try\<close> of the handler's \<^verbatim>\<open>except\<close> block.\<close>

definition check_retry :: "Consumer \<Rightarrow> exn \<Rightarrow> unit comp" where
  "check_retry c e =
     except_Exception
       (seq (perform (ShouldRetry (exn_str e) 1) (should_retry (core c) (exn_str e) 1)) (\<lambda>retry.
        if retry then
          seq (perform (CalculateBackoff 1) (calculate_backoff (core c) 1)) (\<lambda>backoff.
          log WARNING ''Would retry after backoff (not implemented in PoC)'')
        else ret ()))
       (\<lambda>retry_err. log ERROR (''Error checking retry: '' @ exn_str retry_err))"

definition call_user_handler :: "Libs \<Rightarrow> Consumer \<Rightarrow> CloudEvent \<Rightarrow> unit comp" where
  "call_user_handler lib c ev =
     except_Exception (invoke_handler lib c ev)
       (\<lambda>e. seq (log ERROR (''Handler error: '' @ exn_str e)) (\<lambda>_. check_retry c e))"

text \<open>
  One pass through the body of \<^verbatim>\<open>while True\<close> with \<^verbatim>\<open>consecutive_errors = n\<close>:
  \<open>Inr n'\<close> when the body reaches its end or a \<^verbatim>\<open>continue\<close> with the counter at \<open>n'\<close>,
  \<open>Inl e\<close> when \<open>e\<close> leaves the loop.
\<close>

definition loop_body :: "Libs \<Rightarrow> Consumer \<Rightarrow> nat \<Rightarrow> poll_result \<Rightarrow> nat comp" where
  "loop_body lib c n p =
     (case p of
        PollRaise r \<Rightarrow> (Inl (External r), [Poll])
      | PollNone \<Rightarrow> (Inr n, [Poll])
      | PollMsg m \<Rightarrow>
          (case msg_error m of
             Some err \<Rightarrow>
               if code err = PARTITION_EOF then (Inr n, [Poll])
               else
                 seq (Inr (), [Poll, Log ERROR (''Consumer error: '' @ err_str err)]) (\<lambda>_.
                 if n + 1 \<ge> max_consecutive_errors then raise (KafkaException (err_str err))
                 else ret (n + 1))
           | None \<Rightarrow>
               seq (Inr (), [Poll]) (\<lambda>_.
               seq (parse_cloud_event lib m) (\<lambda>event.
               case event of
                 None \<Rightarrow> ret 0
               | Some ev \<Rightarrow> seq (call_user_handler lib c ev) (\<lambda>_. ret 0)))))"

text \<open>
  The loop, driven by the results of the successive polls. The source's loop has no exit
  but an exception; when the given results are used up the loop is still polling, with
  the counter at \<open>n\<close>: the result is \<open>Inr n\<close>.
\<close>

fun while_loop :: "Libs \<Rightarrow> Consumer \<Rightarrow> nat \<Rightarrow> poll_result list \<Rightarrow> nat comp" where
  "while_loop lib c n [] = (Inr n, [])"
| "while_loop lib c n (p # ps) = seq (loop_body lib c n p) (\<lambda>n'. while_loop lib c n' ps)"

text \<open>
  \<^verbatim>\<open>start\<close>: \<open>None\<close> when the loop is still polling after the given results,
  otherwise what \<^verbatim>\<open>start\<close> returns or raises after \<^verbatim>\<open>except KeyboardInterrupt\<close> and
  \<^verbatim>\<open>finally: self.close()\<close>. An exception of \<^verbatim>\<open>close\<close> replaces the one in flight.
\<close>

definition start :: "Libs \<Rightarrow> Consumer \<Rightarrow> poll_result list \<Rightarrow> (exn + unit) option \<times> action list" where
  "start lib c polls =
     (case consumer c of
        None \<Rightarrow> (Some (Inl (RuntimeError ''Consumer not initialized'')), [])
      | Some k \<Rightarrow>
          (case while_loop lib c 0 polls of
             (Inr n, tr) \<Rightarrow> (None, Log INFO ''Starting consumer'' # tr)
           | (Inl e, tr) \<Rightarrow>
               (let (r1, tr1) =
                      (if e = External KeyboardInterrupt
                       then (Inr (), [Log INFO ''Consumer interrupted''])
                       else (Inl e, []));
                    (r2, tr2) = close lib c
                in (Some (case r2 of Inl e2 \<Rightarrow> Inl e2 | Inr u \<Rightarrow> r1),
                    Log INFO ''Starting consumer'' # tr @ tr1 @ tr2))))"

subsection \<open>Reading a trace\<close>

definition count_polls :: "action list \<Rightarrow> nat" where
  "count_polls tr = length (filter (\<lambda>a. a = Poll) tr)"

fun is_handler_call :: "action \<Rightarrow> bool" where
  "is_handler_call (CallHandler ev) = True"
| "is_handler_call a = False"

fun is_produce :: "action \<Rightarrow> bool" where
  "is_produce (Produce t v k) = True"
| "is_produce a = False"

fun is_new_producer :: "action \<Rightarrow> bool" where
  "is_new_producer (NewProducer cf) = True"
| "is_new_producer a = False"

text \<open>The router's calls: serialization, destination resolution, publishing.\<close>

fun is_log :: "action \<Rightarrow> bool" where
  "is_log (Log lvl s) = True"
| "is_log a = False"

fun is_decode :: "action \<Rightarrow> bool" where
  "is_decode (FromStructured km) = True"
| "is_decode (FromBinary km) = True"
| "is_decode a = False"

fun is_retry_query :: "action \<Rightarrow> bool" where
  "is_retry_query (ShouldRetry e n) = True"
| "is_retry_query (CalculateBackoff n) = True"
| "is_retry_query a = False"

text \<open>
  The router's calls: serialization, destination resolution, publishing and the
  unbounded \<^verbatim>\<open>flush()\<close> after it.
\<close>

fun is_routing :: "action \<Rightarrow> bool" where
  "is_routing (JsonDumps d) = True"
| "is_routing (GetOutputDestination js) = True"
| "is_routing (Produce t v k) = True"
| "is_routing (Flush None) = True"
| "is_routing a = False"

text \<open>The three releases of \<^verbatim>\<open>close\<close>; its flush is the one with a timeout.\<close>

fun is_release :: "action \<Rightarrow> bool" where
  "is_release (Flush (Some t)) = True"
| "is_release ConsumerClose = True"
| "is_release CoreClose = True"
| "is_release a = False"

text \<open>
  \<open>only P m\<close>: every action of the computation \<open>m\<close> is of kind \<open>P\<close>;
  \<open>never P m\<close>: none is.
\<close>

definition only :: "(action \<Rightarrow> bool) \<Rightarrow> 'a comp \<Rightarrow> bool" where
  "only P m = list_all P (snd m)"

definition never :: "(action \<Rightarrow> bool) \<Rightarrow> 'a comp \<Rightarrow> bool" where
  "never P m = only (\<lambda>a. \<not> P a) m"

subsection \<open>Kinds of poll result\<close>

text \<open>
  The branches of the loop body: a message whose \<^verbatim>\<open>error()\<close> is set and is not the
  end-of-partition code; an empty poll or an end-of-partition signal; a message without
  error.
\<close>

fun is_transport_error :: "poll_result \<Rightarrow> bool" where
  "is_transport_error (PollMsg m) =
     (case msg_error m of Some err \<Rightarrow> code err \<noteq> PARTITION_EOF | None \<Rightarrow> False)"
| "is_transport_error p = False"

fun is_idle :: "poll_result \<Rightarrow> bool" where
  "is_idle PollNone = True"
| "is_idle (PollMsg m) =
     (case msg_error m of Some err \<Rightarrow> code err = PARTITION_EOF | None \<Rightarrow> False)"
| "is_idle (PollRaise r) = False"

fun is_successful_poll :: "poll_result \<Rightarrow> bool" where
  "is_successful_poll (PollMsg m) = (msg_error m = None)"
| "is_successful_poll p = False"

subsection \<open>A concrete deployment\<close>

text \<open>
  Collaborators with fixed answers, on which the statements below are evaluated. The
  handlers follow the repository's examples: \<^verbatim>\<open>examples/ffi/func.py\<close> is annotated
  \<^verbatim>\<open>-> None\<close>, \<^verbatim>\<open>examples/ffi_output_example.py\<close> is annotated
  \<^verbatim>\<open>-> Optional[CloudEvent]\<close> and returns an event for the type \<^verbatim>\<open>kafka.message\<close> only.
  The two decoders are shaped as those of cloudevents.kafka: \<^verbatim>\<open>from_structured\<close> takes
  the event from the JSON document in the message value, \<^verbatim>\<open>from_binary\<close> takes it from
  the \<^verbatim>\<open>ce_\<close> headers; here each knows one event (the document \<open>''structured''\<close>, the
  headers of type \<open>''header.event''\<close>). \<^verbatim>\<open>json_dumps\<close> answers with the keys of the dict
  it is given.
\<close>

definition ex_event :: CloudEvent where
  "ex_event =
     \<lparr>ce_specversion = ''1.0'', ce_type = ''kafka.message'', ce_source = ''test'',
      ce_id = ''42'', ce_time = PyStr ''2024-01-01T00:00:00+00:00'', ce_extensions = [],
      ce_payload = Some (PyStr ''payload'')\<rparr>"

definition ex_output :: CloudEvent where
  "ex_output =
     \<lparr>ce_specversion = ''1.0'', ce_type = ''com.example.processed'',
      ce_source = ''ffi-output-example'', ce_id = ''processed-42'',
      ce_time = PyStr ''2024-01-01T00:00:01+00:00'', ce_extensions = [],
      ce_payload = Some (PyDict [(''original_id'', PyStr ''42'')])\<rparr>"

definition ex_header_event :: CloudEvent where
  "ex_header_event =
     \<lparr>ce_specversion = ''1.0'', ce_type = ''header.event'', ce_source = ''test'',
      ce_id = ''43'', ce_time = PyStr ''2024-01-01T00:00:00+00:00'', ce_extensions = [],
      ce_payload = Some (PyStr ''payload'')\<rparr>"

definition ex_lib :: Libs where
  "ex_lib =
     \<lparr>from_structured =
        (\<lambda>km. if km_value km = ''structured'' then Inr ex_event
              else Inl (Exception ''not structured'')),
      from_binary =
        (\<lambda>km. if map_of (km_headers km) ''ce_type'' = Some ''header.event'' then Inr ex_header_event
              else Inl (Exception ''not binary'')),
      json_dumps = (\<lambda>d. Inr (concat (map fst d))),
      new_consumer = (\<lambda>cf. None),
      subscribe = (\<lambda>ts. None),
      consumer_close = None,
      new_producer = (\<lambda>cf. None),
      produce = (\<lambda>t v k. None),
      flush = (\<lambda>t. None)\<rparr>"

definition ex_config :: KafkaConfig where
  "ex_config = \<lparr>broker = ''localhost:9092'', topic = ''events'', group = ''eda''\<rparr>"

definition ex_core :: "DestinationType \<Rightarrow> Core" where
  "ex_core k =
     \<lparr>get_kafka_config = Inr ex_config,
      should_retry = (\<lambda>e a. Inr True),
      calculate_backoff = (\<lambda>a. Inl (Exception ''no backoff'')),
      get_output_destination = (\<lambda>js. Inr \<lparr>dest_type = k, target = ''out'', cluster = None\<rparr>),
      core_close = None\<rparr>"

definition ex_simple_handler :: Handler where
  "ex_simple_handler =
     \<lparr>annotations = Some [(''event'', Ann ''cloudevents.http.event.CloudEvent''), (''return'', AnnNone)],
      call = (\<lambda>ev. Inr None)\<rparr>"

definition ex_output_handler :: Handler where
  "ex_output_handler =
     \<lparr>annotations = Some [(''event'', Ann ''cloudevents.http.event.CloudEvent''),
                         (''return'', Ann ''typing.Optional[cloudevents.http.event.CloudEvent]'')],
      call = (\<lambda>ev. if ce_type ev = ''kafka.message'' then Inr (Some ex_output) else Inr None)\<rparr>"

text \<open>
  A handler annotated \<^verbatim>\<open>-> Optional[OrderEvent]\<close>, where \<^verbatim>\<open>OrderEvent\<close> of the module
  \<^verbatim>\<open>shop.events\<close> is a subclass of \<^verbatim>\<open>CloudEvent\<close>; it returns an event for every input.
\<close>

definition ex_subclass_handler :: Handler where
  "ex_subclass_handler =
     \<lparr>annotations = Some [(''event'', Ann ''cloudevents.http.event.CloudEvent''),
                         (''return'', Ann ''typing.Optional[shop.events.OrderEvent]'')],
      call = (\<lambda>ev. Inr (Some ex_output))\<rparr>"

definition ex_failing_handler :: Handler where
  "ex_failing_handler =
     \<lparr>annotations = Some [(''return'', AnnNone)],
      call = (\<lambda>ev. Inl (Exception ''boom''))\<rparr>"

definition ex_consumer :: "Handler \<Rightarrow> DestinationType \<Rightarrow> Consumer" where
  "ex_consumer h k =
     \<lparr>core = ex_core k, handler = h,
      consumer = Some (KafkaConsumer (consumer_conf ex_config)),
      producer = (if detect_output_handler h then Some (Producer (producer_conf ex_config)) else None),
      is_output_handler = detect_output_handler h\<rparr>"

definition ex_msg :: "bytes option \<Rightarrow> Message" where
  "ex_msg v =
     \<lparr>msg_error = None, msg_value = v,
      msg_headers = Some [(''ce_id'', HBytes ''42''), (''trace'', HNone)],
      msg_key = Some ''k''\<rparr>"

text \<open>
  A message that carries an event both ways: the document \<open>''structured''\<close> in the value
  and a \<^verbatim>\<open>ce_\<close> envelope of another event in the headers.
\<close>

definition ex_both :: Message where
  "ex_both =
     \<lparr>msg_error = None, msg_value = Some ''structured'',
      msg_headers = Some [(''ce_specversion'', HBytes ''1.0''), (''ce_type'', HBytes ''header.event''),
                          (''ce_source'', HBytes ''test''), (''ce_id'', HBytes ''43'')],
      msg_key = Some ''k''\<rparr>"

definition ex_err :: "int \<Rightarrow> Message" where
  "ex_err n =
     \<lparr>msg_error = Some \<lparr>code = n, err_str = ''broker down''\<rparr>, msg_value = None,
      msg_headers = None, msg_key = None\<rparr>"

text \<open>Four transport errors, with an empty poll and an end-of-partition signal between them.\<close>

definition ex_errors :: "poll_result list" where
  "ex_errors =
     [PollMsg (ex_err (- 1)), PollNone, PollMsg (ex_err (- 1)), PollMsg (ex_err PARTITION_EOF),
      PollMsg (ex_err (- 1)), PollMsg (ex_err (- 1))]"

text \<open>A broker client whose \<^verbatim>\<open>flush\<close> raises.\<close>

definition ex_lib_flush_fails :: Libs where
  "ex_lib_flush_fails = ex_lib\<lparr>flush := (\<lambda>t. Some (Exception ''flush failed''))\<rparr>"

section \<open>Lemmas about sequencing, traces and the loop\<close>

lemma seq_Inl [simp]: "seq (Inl e, tr) f = (Inl e, tr)"
  by (simp add: seq_def)

lemma seq_Inr [simp]: "seq (Inr x, tr) f = (fst (f x), tr @ snd (f x))"
  by (simp add: seq_def split: prod.splits)

lemma seq_ret [simp]: "seq (ret x) f = f x"
  by (simp add: ret_def)

lemma seq_raise [simp]: "seq (raise e) f = raise e"
  by (simp add: raise_def)

lemma seq_assoc: "seq (seq m f) g = seq m (\<lambda>x. seq (f x) g)"
  by (cases m; cases "fst m") (auto simp: seq_def split: prod.splits sum.splits)

lemma while_loop_append:
  "while_loop lib c n (xs @ ys) = seq (while_loop lib c n xs) (\<lambda>n'. while_loop lib c n' ys)"
proof (induction xs arbitrary: n)
  case Nil
  show ?case by simp
next
  case (Cons p ps)
  show ?case by (simp add: Cons.IH seq_assoc)
qed

lemma loop_body_idle: "is_idle p \<Longrightarrow> loop_body lib c n p = (Inr n, [Poll])"
  by (cases p) (auto simp: loop_body_def split: option.splits)

lemma loop_body_error_below:
  "is_transport_error p \<Longrightarrow> n + 1 < 5 \<Longrightarrow>
     fst (loop_body lib c n p) = Inr (n + 1) \<and> count_polls (snd (loop_body lib c n p)) = 1"
  by (cases p)
     (auto simp: loop_body_def max_consecutive_errors_def count_polls_def ret_def raise_def
           split: option.splits)

lemma loop_body_error_fatal:
  "msg_error m = Some err \<Longrightarrow> code err \<noteq> PARTITION_EOF \<Longrightarrow> 5 \<le> n + 1 \<Longrightarrow>
     loop_body lib c n (PollMsg m) =
       (Inl (KafkaException (err_str err)), [Poll, Log ERROR (''Consumer error: '' @ err_str err)])"
  by (simp add: loop_body_def max_consecutive_errors_def raise_def)

lemma loop_body_success_resets:
  "is_successful_poll p \<Longrightarrow> loop_body lib c n p = (Inr k, tr) \<Longrightarrow> k = 0"
  by (cases p)
     (auto simp: loop_body_def seq_def ret_def split: option.splits prod.splits sum.splits)

lemma errors_below_threshold:
  "\<forall>p\<in>set ps. is_transport_error p \<or> is_idle p \<Longrightarrow>
   n + length (filter is_transport_error ps) < 5 \<Longrightarrow>
     fst (while_loop lib c n ps) = Inr (n + length (filter is_transport_error ps))
     \<and> count_polls (snd (while_loop lib c n ps)) = length ps"
proof (induction ps arbitrary: n)
  case Nil
  show ?case by (simp add: count_polls_def)
next
  case (Cons p ps)
  show ?case
  proof (cases "is_transport_error p")
    case True
    with Cons.prems have lt: "n + 1 < 5" by simp
    from loop_body_error_below [OF True lt, of lib c]
    obtain tr where body: "loop_body lib c n p = (Inr (n + 1), tr)" and one: "count_polls tr = 1"
      by (cases "loop_body lib c n p") auto
    from Cons.prems True have "\<forall>q\<in>set ps. is_transport_error q \<or> is_idle q"
      and "(n + 1) + length (filter is_transport_error ps) < 5" by simp_all
    from Cons.IH [OF this] show ?thesis
      using True body one by (simp add: count_polls_def)
  next
    case False
    with Cons.prems have idle: "is_idle p" by simp
    from Cons.prems False have "\<forall>q\<in>set ps. is_transport_error q \<or> is_idle q"
      and "n + length (filter is_transport_error ps) < 5" by simp_all
    from Cons.IH [OF this] show ?thesis
      using False by (simp add: loop_body_idle [OF idle] count_polls_def)
  qed
qed


lemma only_ret [simp]: "only P (ret x)"
  by (simp add: only_def ret_def)

lemma only_raise [simp]: "only P (raise e)"
  by (simp add: only_def raise_def)

lemma only_log [simp]: "only P (log lvl s) = P (Log lvl s)"
  by (simp add: only_def log_def)

lemma only_perform [simp]: "only P (perform a r) = P a"
  by (simp add: only_def perform_def split: sum.splits)

lemma only_perform_unit [simp]: "only P (perform_unit a r) = P a"
  by (simp add: only_def perform_unit_def split: option.splits)

lemma only_seq: "only P m \<Longrightarrow> (\<And>x. only P (f x)) \<Longrightarrow> only P (seq m f)"
  by (cases m; cases "fst m") (auto simp: only_def seq_def case_prod_beta)

lemma only_except: "only P m \<Longrightarrow> (\<And>e. only P (h e)) \<Longrightarrow> only P (except_Exception m h)"
  by (cases m; cases "fst m") (auto simp: only_def except_Exception_def case_prod_beta)

lemma only_mono: "only P m \<Longrightarrow> (\<And>a. P a \<Longrightarrow> Q a) \<Longrightarrow> only Q m"
  by (auto simp: only_def list_all_iff)

lemma only_never: "only P m \<Longrightarrow> (\<And>a. P a \<Longrightarrow> \<not> Q a) \<Longrightarrow> never Q m"
  unfolding never_def by (erule only_mono) simp

lemma never_filter: "never P m \<Longrightarrow> filter P (snd m) = []"
  by (auto simp: never_def only_def list_all_iff filter_empty_conv)

lemma only_parse_cloud_event: "only (\<lambda>a. is_decode a \<or> is_log a) (parse_cloud_event lib m)"
  by (simp add: parse_cloud_event_def only_def Let_def split: option.splits sum.splits)

lemma only_publish_to_kafka: "only (\<lambda>a. is_routing a \<or> is_log a) (publish_to_kafka lib c ev t)"
  unfolding publish_to_kafka_def
  by (auto split: option.splits intro!: only_seq)

lemma only_publish_output_event:
  "only (\<lambda>a. is_routing a \<or> is_log a) (publish_output_event lib c ev)"
  unfolding publish_output_event_def
  by (auto split: option.splits sum.splits DestinationType.splits
           intro!: only_seq only_publish_to_kafka)

lemma only_invoke_handler:
  "only (\<lambda>a. is_handler_call a \<or> is_routing a \<or> is_log a) (invoke_handler lib c ev)"
  unfolding invoke_handler_def
  by (auto split: option.splits
           intro!: only_seq only_mono [OF only_publish_output_event])

lemma only_check_retry: "only (\<lambda>a. is_retry_query a \<or> is_log a) (check_retry c e)"
  unfolding check_retry_def
  by (auto intro!: only_seq only_except)

lemma only_call_user_handler:
  "only (\<lambda>a. is_handler_call a \<or> is_routing a \<or> is_retry_query a \<or> is_log a)
     (call_user_handler lib c ev)"
  unfolding call_user_handler_def
  by (auto intro!: only_seq only_except only_mono [OF only_invoke_handler]
                   only_mono [OF only_check_retry])

lemma only_close: "only (\<lambda>a. is_release a \<or> is_log a) (close lib c)"
  unfolding close_def
  by (auto split: option.splits intro!: only_seq)


lemma count_polls_append [simp]: "count_polls (xs @ ys) = count_polls xs + count_polls ys"
  by (simp add: count_polls_def)

lemma count_polls_never: "never (\<lambda>a. a = Poll) m \<Longrightarrow> count_polls (snd m) = 0"
  by (simp add: count_polls_def never_filter)

lemma close_no_poll: "count_polls (snd (close lib c)) = 0"
  by (rule count_polls_never, rule only_never [OF only_close]) auto

lemma while_loop_snoc_success:
  assumes "is_successful_poll s" and "while_loop lib c n (pre @ [s]) = (Inr j, tr0)"
  shows "j = 0"
proof -
  obtain r tr where pre: "while_loop lib c n pre = (r, tr)" by (cases "while_loop lib c n pre")
  show ?thesis
  proof (cases r)
    case (Inl e)
    with assms(2) pre show ?thesis by (simp add: while_loop_append)
  next
    case (Inr n1)
    obtain r' tr' where body: "loop_body lib c n1 s = (r', tr')" by (cases "loop_body lib c n1 s")
    with assms(2) pre Inr have "r' = Inr j" by (cases r') (simp_all add: while_loop_append)
    with body loop_body_success_resets [OF assms(1)] show ?thesis by blast
  qed
qed

lemma fatal_at_threshold:
  assumes qs: "\<forall>p\<in>set qs. is_transport_error p \<or> is_idle p"
      and four: "length (filter is_transport_error qs) = 4"
      and err: "msg_error m = Some err" and code: "code err \<noteq> PARTITION_EOF"
  shows "\<exists>tr. while_loop lib c 0 (qs @ PollMsg m # rest) = (Inl (KafkaException (err_str err)), tr)
            \<and> count_polls tr = length qs + 1"
proof -
  from errors_below_threshold [OF qs, of 0 lib c] four
  obtain trq where wq: "while_loop lib c 0 qs = (Inr 4, trq)" and cq: "count_polls trq = length qs"
    by (cases "while_loop lib c 0 qs") auto
  have "loop_body lib c 4 (PollMsg m) =
          (Inl (KafkaException (err_str err)), [Poll, Log ERROR (''Consumer error: '' @ err_str err)])"
    by (rule loop_body_error_fatal [OF err code]) simp
  then have "while_loop lib c 0 (qs @ PollMsg m # rest) =
          (Inl (KafkaException (err_str err)), trq @ [Poll, Log ERROR (''Consumer error: '' @ err_str err)])"
    by (simp add: while_loop_append wq)
  moreover have "count_polls (trq @ [Poll, Log ERROR (''Consumer error: '' @ err_str err)]) = length qs + 1"
    using cq by (simp add: count_polls_def)
  ultimately show ?thesis by blast
qed

lemma ex_output_handler_detected: "detect_output_handler ex_output_handler"
  by (simp add: detect_output_handler_def ex_output_handler_def sublist_Cons_right)

lemma ex_simple_handler_detected: "\<not> detect_output_handler ex_simple_handler"
  by (simp add: detect_output_handler_def ex_simple_handler_def)

lemma ex_failing_handler_detected: "\<not> detect_output_handler ex_failing_handler"
  by (simp add: detect_output_handler_def ex_failing_handler_def)

lemma handler_call_kind:
  "is_handler_call a \<Longrightarrow>
     a \<noteq> Poll \<and> \<not> is_decode a \<and> \<not> is_log a \<and> \<not> is_routing a \<and> \<not> is_retry_query a
     \<and> \<not> is_release a \<and> \<not> is_new_producer a"
  by (cases a) auto

lemma routing_kind:
  "is_routing a \<Longrightarrow>
     a \<noteq> Poll \<and> \<not> is_decode a \<and> \<not> is_log a \<and> \<not> is_handler_call a \<and> \<not> is_retry_query a
     \<and> \<not> is_release a \<and> \<not> is_new_producer a"
  by (cases a rule: is_routing.cases) auto

lemma new_producer_kind:
  "is_new_producer a \<Longrightarrow>
     a \<noteq> Poll \<and> \<not> is_decode a \<and> \<not> is_log a \<and> \<not> is_handler_call a \<and> \<not> is_retry_query a
     \<and> \<not> is_release a \<and> \<not> is_routing a"
  by (cases a rule: is_routing.cases) auto

lemma produce_kind:
  "is_produce a \<Longrightarrow> is_routing a"
  by (cases a) auto

lemma init_result:
  assumes "init lib cr h = (Inr c, tr)"
  shows "handler c = h \<and> core c = cr \<and> is_output_handler c = detect_output_handler h
       \<and> consumer c \<noteq> None \<and> (producer c \<noteq> None) = detect_output_handler h"
  using assms
  by (auto simp: init_def Let_def seq_def perform_def perform_unit_def log_def ret_def
           split: sum.splits option.splits if_splits prod.splits)

lemma only_pair [simp]: "only P (r, tr) = list_all P tr"
  by (simp add: only_def)

lemma only_loop_body:
  "only (\<lambda>a. a = Poll \<or> is_decode a \<or> is_handler_call a \<or> is_routing a \<or> is_retry_query a \<or> is_log a)
     (loop_body lib c n p)"
  unfolding loop_body_def
  by (auto simp: only_def [symmetric] split: poll_result.splits option.splits
           intro!: only_seq only_mono [OF only_parse_cloud_event]
                   only_mono [OF only_call_user_handler])

lemma only_while_loop:
  "only (\<lambda>a. a = Poll \<or> is_decode a \<or> is_handler_call a \<or> is_routing a \<or> is_retry_query a \<or> is_log a)
     (while_loop lib c n ps)"
proof (induction ps arbitrary: n)
  case Nil
  show ?case by simp
next
  case (Cons p ps)
  show ?case by (simp del: seq_Inr seq_Inl) (intro only_seq only_loop_body Cons.IH)
qed

lemma start_actions:
  "list_all (\<lambda>a. a = Poll \<or> is_decode a \<or> is_handler_call a \<or> is_routing a \<or> is_retry_query a
               \<or> is_log a \<or> is_release a) (snd (start lib c polls))"
proof -
  have w: "list_all (\<lambda>a. a = Poll \<or> is_decode a \<or> is_handler_call a \<or> is_routing a
               \<or> is_retry_query a \<or> is_log a) (snd (while_loop lib c 0 polls))"
    using only_while_loop [of lib c 0 polls] by (simp add: only_def)
  have cl: "list_all (\<lambda>a. is_release a \<or> is_log a) (snd (close lib c))"
    using only_close [of lib c] by (simp add: only_def)
  show ?thesis
    using w cl
    by (cases "while_loop lib c 0 polls"; cases "fst (while_loop lib c 0 polls)")
       (auto simp: start_def list_all_iff case_prod_beta split: option.splits)
qed

lemma start_no_new_producer: "filter is_new_producer (snd (start lib c polls)) = []"
  using start_actions [of lib c polls]
  by (auto simp: filter_empty_conv list_all_iff dest: new_producer_kind)


lemma fst_seq_Inl:
  "fst (seq m f) = Inl x \<Longrightarrow> fst m = Inl x \<or> (\<exists>y. fst m = Inr y \<and> fst (f y) = Inl x)"
  by (cases m; cases "fst m") (auto simp: seq_def case_prod_beta)

lemma fst_except_Inl:
  "fst (except_Exception m h) = Inl x \<Longrightarrow>
     (fst m = Inl x \<and> \<not> is_Exception x) \<or> (\<exists>e. fst m = Inl e \<and> is_Exception e \<and> fst (h e) = Inl x)"
  by (cases m; cases "fst m") (auto simp: except_Exception_def case_prod_beta split: if_splits)

lemma not_Exception_External: "\<not> is_Exception x \<Longrightarrow> \<exists>r. x = External r"
  by (cases x) auto

lemma fst_perform_Inl: "fst (perform a r) = Inl x \<Longrightarrow> \<exists>y. x = External y"
  by (auto simp: perform_def split: sum.splits)

lemma fst_perform_unit_Inl: "fst (perform_unit a r) = Inl x \<Longrightarrow> \<exists>y. x = External y"
  by (auto simp: perform_unit_def split: option.splits)

lemma fst_log [simp]: "fst (log lvl s) = Inr ()"
  by (simp add: log_def)

lemma fst_ret [simp]: "fst (ret v) = Inr v"
  by (simp add: ret_def)

lemma fst_raise [simp]: "fst (raise e) = Inl e"
  by (simp add: raise_def)

lemma check_retry_escapes: "fst (check_retry c e) = Inl x \<Longrightarrow> \<not> is_Exception x"
  unfolding check_retry_def by (auto dest!: fst_except_Inl)

lemma call_user_handler_escapes: "fst (call_user_handler lib c ev) = Inl x \<Longrightarrow> \<exists>r. x = External r"
proof -
  assume "fst (call_user_handler lib c ev) = Inl x"
  then have "\<not> is_Exception x"
    unfolding call_user_handler_def
    by (auto dest!: fst_except_Inl fst_seq_Inl dest: check_retry_escapes)
  then show ?thesis by (rule not_Exception_External)
qed

lemma parse_cloud_event_escapes: "fst (parse_cloud_event lib m) = Inl x \<Longrightarrow> \<exists>r. x = External r"
  by (auto simp: parse_cloud_event_def Let_def split: option.splits sum.splits if_splits)

lemma loop_body_escapes:
  "fst (loop_body lib c n p) = Inl x \<Longrightarrow> (\<exists>r. x = External r) \<or> (\<exists>s. x = KafkaException s)"
  unfolding loop_body_def
  by (auto simp del: seq_Inr split: poll_result.splits option.splits if_splits
           dest!: fst_seq_Inl
           dest: parse_cloud_event_escapes call_user_handler_escapes)

lemma while_loop_escapes:
  "fst (while_loop lib c n ps) = Inl x \<Longrightarrow> (\<exists>r. x = External r) \<or> (\<exists>s. x = KafkaException s)"
proof (induction ps arbitrary: n)
  case Nil
  then show ?case by simp
next
  case (Cons p ps)
  from Cons.prems have "fst (seq (loop_body lib c n p) (\<lambda>n'. while_loop lib c n' ps)) = Inl x"
    by simp
  then show ?case
    using loop_body_escapes Cons.IH by (blast dest!: fst_seq_Inl)
qed

lemma close_escapes: "fst (close lib c) = Inl x \<Longrightarrow> \<exists>r. x = External r"
  unfolding close_def
  by (auto split: option.splits dest!: fst_seq_Inl dest: fst_perform_unit_Inl)

lemma start_escapes:
  assumes "consumer c = Some k" and "fst (start lib c polls) = Some (Inl x)"
  shows "(\<exists>r. x = External r) \<or> (\<exists>s. x = KafkaException s)"
proof -
  obtain r tr where w: "while_loop lib c 0 polls = (r, tr)" by (cases "while_loop lib c 0 polls")
  obtain r2 tr2 where cl: "close lib c = (r2, tr2)" by (cases "close lib c")
  show ?thesis
  proof (cases r)
    case (Inr n)
    with assms w show ?thesis by (simp add: start_def)
  next
    case (Inl e)
    show ?thesis
    proof (cases r2)
      case (Inl e2)
      with assms w cl \<open>r = Inl e\<close> have "x = e2"
        by (simp add: start_def case_prod_beta)
      with close_escapes [of lib c e2] cl Inl show ?thesis by simp
    next
      case (Inr u)
      with assms w cl \<open>r = Inl e\<close> have "x = e" and "e \<noteq> External KeyboardInterrupt"
        by (auto simp: start_def case_prod_beta split: if_splits)
      with while_loop_escapes [of lib c 0 polls e] w \<open>r = Inl e\<close> show ?thesis by simp
    qed
  qed
qed

lemma publish_to_kafka_initialized:
  assumes "producer c = Some p"
  shows "fst (publish_to_kafka lib c ev t) \<noteq> Inl (RuntimeError ''Producer not initialized'')"
proof
  assume "fst (publish_to_kafka lib c ev t) = Inl (RuntimeError ''Producer not initialized'')"
  with assms show False
    unfolding publish_to_kafka_def
    by (auto dest!: fst_seq_Inl dest: fst_perform_Inl fst_perform_unit_Inl)
qed

lemma name_attr_error: "name_attr t = Inl e \<Longrightarrow> \<exists>s. e = AttributeError s"
  by (cases t rule: name_attr.cases) auto

lemma publish_output_event_initialized:
  assumes "producer c = Some p"
  shows "fst (publish_output_event lib c ev) \<noteq> Inl (RuntimeError ''Producer not initialized'')"
proof
  assume "fst (publish_output_event lib c ev) = Inl (RuntimeError ''Producer not initialized'')"
  with assms show False
    unfolding publish_output_event_def
    by (auto simp: publish_to_kafka_initialized [OF assms]
             split: option.splits sum.splits DestinationType.splits if_splits
             dest!: fst_seq_Inl dest: fst_perform_Inl name_attr_error)
qed

lemma invoke_handler_initialized:
  assumes "is_output_handler c \<longrightarrow> producer c \<noteq> None"
  shows "fst (invoke_handler lib c ev) \<noteq> Inl (RuntimeError ''Producer not initialized'')"
proof
  assume a: "fst (invoke_handler lib c ev) = Inl (RuntimeError ''Producer not initialized'')"
  show False
  proof (cases "is_output_handler c")
    case True
    with assms obtain p where p: "producer c = Some p" by auto
    from a True show False
      unfolding invoke_handler_def
      by (auto simp: publish_output_event_initialized [OF p] split: option.splits
               dest!: fst_seq_Inl dest: fst_perform_Inl)
  next
    case False
    with a show False
      unfolding invoke_handler_def
      by (auto dest!: fst_seq_Inl dest: fst_perform_Inl)
  qed
qed

lemma init_simple_no_producer:
  "\<not> detect_output_handler h \<Longrightarrow> never is_new_producer (init lib cr h)"
  unfolding init_def never_def Let_def
  by (auto intro!: only_seq)

lemma init_output_producer:
  assumes "init lib cr h = (Inr c, tr)" and "detect_output_handler h"
  shows "\<exists>cfg. get_kafka_config cr = Inr cfg \<and> producer c = Some (Producer (producer_conf cfg))
            \<and> filter is_new_producer tr = [NewProducer (producer_conf cfg)]"
  using assms
  by (auto simp: init_def Let_def seq_def perform_def perform_unit_def log_def ret_def
           split: sum.splits option.splits if_splits prod.splits)

lemma ex_init_simple:
  "init ex_lib (ex_core KAFKA) ex_simple_handler =
     (Inr (ex_consumer ex_simple_handler KAFKA),
      [GetKafkaConfig, Log INFO ''Kafka configuration loaded'',
       NewConsumer (consumer_conf ex_config), Subscribe [''events''],
       Log INFO ''Subscribed to topic: events''])"
  by (simp add: init_def ex_simple_handler_detected ex_consumer_def ex_core_def ex_lib_def
        perform_def perform_unit_def log_def ret_def ex_config_def)

lemma ex_init_output:
  "init ex_lib (ex_core k) ex_output_handler =
     (Inr (ex_consumer ex_output_handler k),
      [GetKafkaConfig, Log INFO ''Kafka configuration loaded'',
       NewConsumer (consumer_conf ex_config), Subscribe [''events''],
       Log INFO ''Subscribed to topic: events'',
       NewProducer (producer_conf ex_config),
       Log INFO ''Kafka producer initialized for output events''])"
  by (simp add: init_def ex_output_handler_detected ex_consumer_def ex_core_def ex_lib_def
        perform_def perform_unit_def log_def ret_def ex_config_def)

lemma never_pair [simp]: "never P (r, tr) = list_all (\<lambda>a. \<not> P a) tr"
  by (simp add: never_def)

lemma publish_output_event_begins:
  assumes "producer c = Some p"
  shows "(\<exists>rest. snd (publish_output_event lib c ev) = JsonDumps (event_dict ev) # rest)
       \<and> (\<forall>js. json_dumps lib (event_dict ev) = Inr js \<longrightarrow>
            (\<exists>rest. snd (publish_output_event lib c ev)
                      = JsonDumps (event_dict ev) # GetOutputDestination js # rest))"
  by (auto simp: publish_output_event_def assms perform_def seq_def case_prod_beta
           split: sum.splits)

lemma event_dict_keys:
  "event_dict ev =
     [(''specversion'', PyStr (ce_specversion ev)), (''type'', PyStr (ce_type ev)),
      (''source'', PyStr (ce_source ev)), (''id'', PyStr (ce_id ev))]
     @ [(''time'', ce_time ev)]
     @ (case map_of (ce_extensions ev) ''datacontenttype'' of None \<Rightarrow> []
        | Some v \<Rightarrow> [(''datacontenttype'', v)])
     @ (case map_of (ce_extensions ev) ''data'' of None \<Rightarrow> [] | Some v \<Rightarrow> [(''data'', v)])"
  by (simp add: event_dict_def getitem_def attributes_def split: option.splits)

lemma ex_consumer_output:
  "producer (ex_consumer ex_output_handler k) = Some (Producer (producer_conf ex_config))"
  "get_output_destination (core (ex_consumer ex_output_handler k)) js
     = Inr \<lparr>dest_type = k, target = ''out'', cluster = None\<rparr>"
  by (simp_all add: ex_consumer_def ex_output_handler_detected ex_core_def)

lemma ex_json_output:
  "json_dumps ex_lib (event_dict ex_output) = Inr ''specversiontypesourceidtime''"
  by (simp add: ex_lib_def event_dict_keys ex_output_def)

lemma invoke_handler_calls_once:
  "filter is_handler_call (snd (invoke_handler lib c ev)) = [CallHandler ev]"
proof -
  have r: "filter is_handler_call (snd (publish_output_event lib c out)) = []" for out
    by (rule never_filter, rule only_never [OF only_publish_output_event])
       (auto dest: handler_call_kind)
  show ?thesis
    by (cases "call (handler c) ev")
       (auto simp: invoke_handler_def perform_def ret_def r split: option.splits)
qed

lemma invoke_handler_no_poll: "count_polls (snd (invoke_handler lib c ev)) = 0"
  by (rule count_polls_never, rule only_never [OF only_invoke_handler])
     (auto dest: handler_call_kind routing_kind)

lemma parse_cloud_event_quiet:
  "filter is_handler_call (snd (parse_cloud_event lib m)) = []"
  "filter is_retry_query (snd (parse_cloud_event lib m)) = []"
  "count_polls (snd (parse_cloud_event lib m)) = 0"
  by (simp_all add: parse_cloud_event_def Let_def count_polls_def split: option.splits sum.splits)

lemma invoke_handler_no_retry_query:
  "filter is_retry_query (snd (invoke_handler lib c ev)) = []"
  by (rule never_filter, rule only_never [OF only_invoke_handler])
     (auto dest: handler_call_kind routing_kind elim: is_log.elims)

text \<open>The retry check, case by case.\<close>

lemma check_retry_cases:
  assumes sr: "\<forall>r. should_retry (core c) (exn_str e) 1 = Inl r \<longrightarrow> is_Exception (External r)"
      and cb: "\<forall>r. calculate_backoff (core c) 1 = Inl r \<longrightarrow> is_Exception (External r)"
  shows "check_retry c e =
     (Inr (),
      ShouldRetry (exn_str e) 1 #
      (case should_retry (core c) (exn_str e) 1 of
         Inl r \<Rightarrow> [Log ERROR (''Error checking retry: '' @ exn_str (External r))]
       | Inr False \<Rightarrow> []
       | Inr True \<Rightarrow>
           CalculateBackoff 1 #
           (case calculate_backoff (core c) 1 of
              Inl r \<Rightarrow> [Log ERROR (''Error checking retry: '' @ exn_str (External r))]
            | Inr b \<Rightarrow> [Log WARNING ''Would retry after backoff (not implemented in PoC)''])))"
proof (cases "should_retry (core c) (exn_str e) 1")
  case (Inl r)
  with sr have "is_Exception (External r)" by simp
  with Inl show ?thesis
    by (simp add: check_retry_def perform_def except_Exception_def log_def)
next
  case (Inr b)
  show ?thesis
  proof (cases b)
    case False
    with Inr show ?thesis
      by (simp add: check_retry_def perform_def except_Exception_def ret_def)
  next
    case True
    show ?thesis
    proof (cases "calculate_backoff (core c) 1")
      case (Inl r)
      with cb have "is_Exception (External r)" by simp
      with Inl Inr True show ?thesis
        by (simp add: check_retry_def perform_def except_Exception_def log_def)
    next
      case (Inr n)
      with \<open>should_retry (core c) (exn_str e) 1 = Inr b\<close> True show ?thesis
        by (simp add: check_retry_def perform_def except_Exception_def log_def)
    qed
  qed
qed

lemma call_user_handler_failure:
  assumes "fst (invoke_handler lib c ev) = Inl e" and "is_Exception e"
  shows "call_user_handler lib c ev =
           (fst (check_retry c e),
            snd (invoke_handler lib c ev) @ Log ERROR (''Handler error: '' @ exn_str e)
              # snd (check_retry c e))"
  using assms
  by (cases "invoke_handler lib c ev")
     (simp add: call_user_handler_def except_Exception_def log_def)

lemma init_returns_simple:
  assumes "\<not> detect_output_handler h" and "get_kafka_config cr = Inr cfg"
      and "new_consumer lib (consumer_conf cfg) = None" and "subscribe lib [topic cfg] = None"
  shows "init lib cr h =
     (Inr \<lparr>core = cr, handler = h, consumer = Some (KafkaConsumer (consumer_conf cfg)),
           producer = None, is_output_handler = False\<rparr>,
      [GetKafkaConfig, Log INFO ''Kafka configuration loaded'',
       NewConsumer (consumer_conf cfg), Subscribe [topic cfg],
       Log INFO (''Subscribed to topic: '' @ topic cfg)])"
  using assms by (simp add: init_def perform_def perform_unit_def log_def ret_def)

lemma init_returns_output:
  assumes "detect_output_handler h" and "get_kafka_config cr = Inr cfg"
      and "new_consumer lib (consumer_conf cfg) = None" and "subscribe lib [topic cfg] = None"
      and "new_producer lib (producer_conf cfg) = None"
  shows "init lib cr h =
     (Inr \<lparr>core = cr, handler = h, consumer = Some (KafkaConsumer (consumer_conf cfg)),
           producer = Some (Producer (producer_conf cfg)), is_output_handler = True\<rparr>,
      [GetKafkaConfig, Log INFO ''Kafka configuration loaded'',
       NewConsumer (consumer_conf cfg), Subscribe [topic cfg],
       Log INFO (''Subscribed to topic: '' @ topic cfg),
       NewProducer (producer_conf cfg),
       Log INFO ''Kafka producer initialized for output events''])"
  using assms by (simp add: init_def perform_def perform_unit_def log_def ret_def)

section \<open>The envelope decoder\<close>

text \<open>
  Claim C1 says that the decoder tries the mode with the envelope in the headers first
  and the mode with a JSON document in the value second, that the first success wins,
  that an absent value fails before either, and that absent is returned when both fail.
  \<^verbatim>\<open>_parse_cloud_event\<close> calls \<^verbatim>\<open>from_structured\<close> first and returns its event
  without calling \<^verbatim>\<open>from_binary\<close>. In cloudevents.kafka it is \<^verbatim>\<open>from_structured\<close> that
  decodes the JSON document in the value and \<^verbatim>\<open>from_binary\<close> that reads the \<^verbatim>\<open>ce_\<close>
  headers. So the code tries the document first: on a message that carries one event as
  a document and another in its headers, both decodable, the event of the document is
  returned and the headers are never read. This is the reverse of the order the claim
  and the docstring of \<^verbatim>\<open>_parse_cloud_event\<close> state.
\<close>

theorem parse_cloud_event_prefers_document:
  "to_kafka_message ex_both ''structured''
     = \<lparr>km_headers = [(''ce_specversion'', ''1.0''), (''ce_type'', ''header.event''),
                      (''ce_source'', ''test''), (''ce_id'', ''43'')],
        km_key = Some ''k'', km_value = ''structured''\<rparr>
   \<and> from_structured ex_lib (to_kafka_message ex_both ''structured'') = Inr ex_event
   \<and> from_binary ex_lib (to_kafka_message ex_both ''structured'') = Inr ex_header_event
   \<and> parse_cloud_event ex_lib ex_both
     = (Inr (Some ex_event), [FromStructured (to_kafka_message ex_both ''structured'')])
   \<and> ce_type ex_event = ''kafka.message''
   \<and> ce_type ex_header_event = ''header.event''"
  by (simp add: parse_cloud_event_def to_kafka_message_def ex_both_def ex_lib_def
        ex_event_def ex_header_event_def)

section \<open>The consecutive-error threshold\<close>

text \<open>
  Claim C2. Let \<open>qs\<close> be polls that are transport errors, empty polls or
  end-of-partition signals, four of them transport errors, and let the next poll be a
  fifth transport error. From a counter at zero the loop is still running after \<open>qs\<close>
  with the counter at 4; the fifth error raises \<^verbatim>\<open>KafkaException\<close> out of the loop
  and \<^verbatim>\<open>start\<close> ends by raising, after exactly \<open>length qs + 1\<close> polls, whatever polls
  \<open>rest\<close> would have followed. A poll that returns a message without error leaves the
  counter at zero whatever it was before, so the same holds after any successful poll.
\<close>

theorem consecutive_errors_threshold:
  assumes qs: "\<forall>p\<in>set qs. is_transport_error p \<or> is_idle p"
      and four: "length (filter is_transport_error qs) = 4"
      and err: "msg_error m = Some err" and code: "code err \<noteq> PARTITION_EOF"
      and cons: "consumer c = Some k"
  shows "fst (while_loop lib c 0 qs) = Inr 4
     \<and> (\<exists>tr. while_loop lib c 0 (qs @ PollMsg m # rest) = (Inl (KafkaException (err_str err)), tr)
            \<and> count_polls tr = length qs + 1)
     \<and> (\<exists>x tr. start lib c (qs @ PollMsg m # rest) = (Some (Inl x), tr)
            \<and> count_polls tr = length qs + 1)
     \<and> (\<forall>n p j tr. is_successful_poll p \<and> loop_body lib c n p = (Inr j, tr) \<longrightarrow> j = 0)
     \<and> (\<forall>pre s n j tr0. is_successful_poll s \<and> while_loop lib c n (pre @ [s]) = (Inr j, tr0) \<longrightarrow>
          (\<exists>tr. while_loop lib c n (pre @ s # qs @ PollMsg m # rest)
                  = (Inl (KafkaException (err_str err)), tr0 @ tr)
                \<and> count_polls tr = length qs + 1))"
proof (intro conjI allI impI)
  show "fst (while_loop lib c 0 qs) = Inr 4"
    using errors_below_threshold [OF qs, of 0 lib c] four by simp
next
  show "\<exists>tr. while_loop lib c 0 (qs @ PollMsg m # rest) = (Inl (KafkaException (err_str err)), tr)
            \<and> count_polls tr = length qs + 1"
    by (rule fatal_at_threshold [OF qs four err code])
next
  from fatal_at_threshold [OF qs four err code, of lib c rest]
  obtain tr where w: "while_loop lib c 0 (qs @ PollMsg m # rest) = (Inl (KafkaException (err_str err)), tr)"
    and n: "count_polls tr = length qs + 1" by blast
  obtain r2 tr2 where cl: "close lib c = (r2, tr2)" by (cases "close lib c")
  with close_no_poll [of lib c] have n2: "count_polls tr2 = 0" by simp
  have "start lib c (qs @ PollMsg m # rest) =
          (Some (case r2 of Inl e2 \<Rightarrow> Inl e2 | Inr u \<Rightarrow> Inl (KafkaException (err_str err))),
           Log INFO ''Starting consumer'' # tr @ [] @ tr2)"
    by (simp add: start_def cons w cl)
  moreover have "count_polls (Log INFO ''Starting consumer'' # tr @ [] @ tr2) = length qs + 1"
    using n n2 by (simp add: count_polls_def)
  ultimately show "\<exists>x tr. start lib c (qs @ PollMsg m # rest) = (Some (Inl x), tr)
            \<and> count_polls tr = length qs + 1"
    by (cases r2) auto
next
  fix n p j tr
  assume "is_successful_poll p \<and> loop_body lib c n p = (Inr j, tr)"
  then show "j = 0" using loop_body_success_resets by blast
next
  fix pre s n j tr0
  assume a: "is_successful_poll s \<and> while_loop lib c n (pre @ [s]) = (Inr j, tr0)"
  then have j: "j = 0" using while_loop_snoc_success by blast
  from fatal_at_threshold [OF qs four err code, of lib c rest]
  obtain tr where w: "while_loop lib c 0 (qs @ PollMsg m # rest) = (Inl (KafkaException (err_str err)), tr)"
    and n: "count_polls tr = length qs + 1" by blast
  have "pre @ s # qs @ PollMsg m # rest = (pre @ [s]) @ (qs @ PollMsg m # rest)" by simp
  then have "while_loop lib c n (pre @ s # qs @ PollMsg m # rest) =
          seq (while_loop lib c n (pre @ [s])) (\<lambda>n'. while_loop lib c n' (qs @ PollMsg m # rest))"
    by (simp only: while_loop_append)
  with a j w have "while_loop lib c n (pre @ s # qs @ PollMsg m # rest)
                  = (Inl (KafkaException (err_str err)), tr0 @ tr)" by simp
  with n show "\<exists>tr. while_loop lib c n (pre @ s # qs @ PollMsg m # rest)
                  = (Inl (KafkaException (err_str err)), tr0 @ tr)
                \<and> count_polls tr = length qs + 1" by blast
qed

theorem consecutive_errors_threshold_witness:
  "list_all (\<lambda>p. is_transport_error p \<or> is_idle p) ex_errors
   \<and> length (filter is_transport_error ex_errors) = 4
   \<and> fst (while_loop ex_lib (ex_consumer ex_simple_handler KAFKA) 0 ex_errors) = Inr 4
   \<and> fst (while_loop ex_lib (ex_consumer ex_simple_handler KAFKA) 0
        (ex_errors @ PollMsg (ex_err (- 1)) # [PollMsg (ex_msg (Some ''structured''))]))
       = Inl (KafkaException ''broker down'')
   \<and> count_polls (snd (start ex_lib (ex_consumer ex_simple_handler KAFKA)
        (ex_errors @ PollMsg (ex_err (- 1)) # [PollMsg (ex_msg (Some ''structured''))]))) = 7
   \<and> fst (while_loop ex_lib (ex_consumer ex_simple_handler KAFKA) 3
        ([PollMsg (ex_err (- 1))] @ PollMsg (ex_msg (Some ''structured'')) #
         ex_errors @ PollMsg (ex_err (- 1)) # [PollMsg (ex_msg (Some ''structured''))]))
       = Inl (KafkaException ''broker down'')"
proof -
  let ?c = "ex_consumer ex_simple_handler KAFKA"
  let ?e = "\<lparr>code = - 1, err_str = ''broker down''\<rparr>"
  let ?good = "PollMsg (ex_msg (Some ''structured''))"
  have h1: "\<forall>p\<in>set ex_errors. is_transport_error p \<or> is_idle p"
    by (simp add: ex_errors_def ex_err_def PARTITION_EOF_def)
  have h2: "length (filter is_transport_error ex_errors) = 4"
    by (simp add: ex_errors_def ex_err_def PARTITION_EOF_def)
  have h3: "msg_error (ex_err (- 1)) = Some ?e"
    by (simp add: ex_err_def)
  have h4: "code ?e \<noteq> PARTITION_EOF"
    by (simp add: PARTITION_EOF_def)
  have h5: "consumer ?c = Some (KafkaConsumer (consumer_conf ex_config))"
    by (simp add: ex_consumer_def)
  have len: "length ex_errors = 6"
    by (simp add: ex_errors_def)
  have str: "err_str ?e = ''broker down''"
    by simp
  have s1: "is_successful_poll ?good"
    by (simp add: ex_msg_def)
  have s2: "while_loop ex_lib ?c 3 ([PollMsg (ex_err (- 1))] @ [?good])
      = (Inr 0, [Poll, Log ERROR ''Consumer error: broker down'', Poll,
           FromStructured \<lparr>km_headers = [(''ce_id'', ''42'')], km_key = Some ''k'', km_value = ''structured''\<rparr>,
           CallHandler ex_event])"
    by (simp add: loop_body_def ex_err_def ex_msg_def PARTITION_EOF_def max_consecutive_errors_def
          parse_cloud_event_def to_kafka_message_def ex_lib_def call_user_handler_def
          invoke_handler_def ex_consumer_def ex_simple_handler_def detect_output_handler_def
          except_Exception_def perform_def ret_def raise_def)
  note T = consecutive_errors_threshold [OF h1 h2 h3 h4 h5, of ex_lib "[?good]"]
  have a: "list_all (\<lambda>p. is_transport_error p \<or> is_idle p) ex_errors"
    using h1 by (simp only: list_all_iff)
  have b: "fst (while_loop ex_lib ?c 0 ex_errors) = Inr 4"
    by (rule T [THEN conjunct1])
  from T [THEN conjunct2, THEN conjunct1]
  obtain tr where "while_loop ex_lib ?c 0 (ex_errors @ PollMsg (ex_err (- 1)) # [?good])
                     = (Inl (KafkaException (err_str ?e)), tr)" by blast
  then have c: "fst (while_loop ex_lib ?c 0 (ex_errors @ PollMsg (ex_err (- 1)) # [?good]))
                  = Inl (KafkaException ''broker down'')"
    by (simp only: fst_conv str)
  from T [THEN conjunct2, THEN conjunct2, THEN conjunct1]
  obtain x tr' where "start ex_lib ?c (ex_errors @ PollMsg (ex_err (- 1)) # [?good]) = (Some (Inl x), tr')"
    and "count_polls tr' = length ex_errors + 1" by blast
  then have d: "count_polls (snd (start ex_lib ?c (ex_errors @ PollMsg (ex_err (- 1)) # [?good]))) = 7"
    by (simp only: snd_conv len)
  from T [THEN conjunct2, THEN conjunct2, THEN conjunct2, THEN conjunct2] s1 s2
  obtain tr'' where "while_loop ex_lib ?c 3
        ([PollMsg (ex_err (- 1))] @ ?good # ex_errors @ PollMsg (ex_err (- 1)) # [?good])
      = (Inl (KafkaException (err_str ?e)),
         [Poll, Log ERROR ''Consumer error: broker down'', Poll,
           FromStructured \<lparr>km_headers = [(''ce_id'', ''42'')], km_key = Some ''k'', km_value = ''structured''\<rparr>,
           CallHandler ex_event] @ tr'')" by blast
  then have e: "fst (while_loop ex_lib ?c 3
        ([PollMsg (ex_err (- 1))] @ ?good # ex_errors @ PollMsg (ex_err (- 1)) # [?good]))
       = Inl (KafkaException ''broker down'')"
    by (simp only: fst_conv str)
  from a h2 b c d e show ?thesis by (intro conjI)
qed

section \<open>Shutdown\<close>

text \<open>
  Claim C3, as stated, fails: \<^verbatim>\<open>close\<close> is three statements in a row with no
  \<^verbatim>\<open>try\<close>. With a broker client whose \<^verbatim>\<open>flush\<close> raises, the exception leaves
  \<^verbatim>\<open>close\<close> at once: the consumer is not closed and the Core is not closed.
\<close>

theorem close_skips_after_failure:
  "flush ex_lib_flush_fails (Some 5) = Some (Exception ''flush failed'')
   \<and> fst (close ex_lib_flush_fails (ex_consumer ex_output_handler KAFKA))
     = Inl (External (Exception ''flush failed''))
   \<and> filter is_release (snd (close ex_lib_flush_fails (ex_consumer ex_output_handler KAFKA)))
     = [Flush (Some 5)]
   \<and> ConsumerClose \<notin> set (snd (close ex_lib_flush_fails (ex_consumer ex_output_handler KAFKA)))
   \<and> CoreClose \<notin> set (snd (close ex_lib_flush_fails (ex_consumer ex_output_handler KAFKA)))"
  by (simp add: close_def ex_lib_flush_fails_def ex_lib_def ex_consumer_def ex_output_handler_def
        detect_output_handler_def perform_unit_def sublist_Cons_right)

text \<open>
  Claim C3, amended. The releases run in the order flush (with the timeout of 5, and only
  when there is a producer), consumer close, Core close; each one is attempted exactly
  when every earlier one returned, and the first exception is the result of \<^verbatim>\<open>close\<close>.
  When none raises, all of them run. Whatever exception ends the loop, \<^verbatim>\<open>start\<close> runs
  \<^verbatim>\<open>close\<close> last.
\<close>

theorem close_releases_in_order:
  assumes cons: "consumer c = Some k"
  shows "filter is_release (snd (close lib c)) =
           (case producer c of None \<Rightarrow> [] | Some p \<Rightarrow> [Flush (Some 5)])
           @ (if producer c \<noteq> None \<and> flush lib (Some 5) \<noteq> None then []
              else ConsumerClose # (if consumer_close lib \<noteq> None then [] else [CoreClose]))
     \<and> fst (close lib c) =
           (case (if producer c = None then None else flush lib (Some 5)) of
              Some r \<Rightarrow> Inl (External r)
            | None \<Rightarrow>
                (case consumer_close lib of
                   Some r \<Rightarrow> Inl (External r)
                 | None \<Rightarrow>
                     (case core_close (core c) of
                        Some r \<Rightarrow> Inl (External r)
                      | None \<Rightarrow> Inr ())))
     \<and> (\<forall>polls e tr. while_loop lib c 0 polls = (Inl e, tr) \<longrightarrow>
          (\<exists>tr1. list_all is_log tr1
               \<and> snd (start lib c polls) = Log INFO ''Starting consumer'' # tr @ tr1 @ snd (close lib c)))"
proof (intro conjI allI impI)
  show "filter is_release (snd (close lib c)) =
           (case producer c of None \<Rightarrow> [] | Some p \<Rightarrow> [Flush (Some 5)])
           @ (if producer c \<noteq> None \<and> flush lib (Some 5) \<noteq> None then []
              else ConsumerClose # (if consumer_close lib \<noteq> None then [] else [CoreClose]))"
    by (auto simp: close_def cons perform_unit_def log_def split: option.splits)
next
  show "fst (close lib c) =
           (case (if producer c = None then None else flush lib (Some 5)) of
              Some r \<Rightarrow> Inl (External r)
            | None \<Rightarrow>
                (case consumer_close lib of
                   Some r \<Rightarrow> Inl (External r)
                 | None \<Rightarrow>
                     (case core_close (core c) of
                        Some r \<Rightarrow> Inl (External r)
                      | None \<Rightarrow> Inr ())))"
    by (auto simp: close_def cons perform_unit_def log_def split: option.splits)
next
  fix polls e tr
  assume w: "while_loop lib c 0 polls = (Inl e, tr)"
  show "\<exists>tr1. list_all is_log tr1
               \<and> snd (start lib c polls) = Log INFO ''Starting consumer'' # tr @ tr1 @ snd (close lib c)"
  proof (cases "e = External KeyboardInterrupt")
    case True
    then have "snd (start lib c polls) =
        Log INFO ''Starting consumer'' # tr @ [Log INFO ''Consumer interrupted''] @ snd (close lib c)"
      by (simp add: start_def cons w case_prod_beta)
    moreover have "list_all is_log [Log INFO ''Consumer interrupted'']" by simp
    ultimately show ?thesis by blast
  next
    case False
    then have "snd (start lib c polls) = Log INFO ''Starting consumer'' # tr @ [] @ snd (close lib c)"
      by (simp add: start_def cons w case_prod_beta)
    moreover have "list_all is_log []" by simp
    ultimately show ?thesis by blast
  qed
qed

theorem close_releases_in_order_witness:
  "consumer (ex_consumer ex_output_handler KAFKA) = Some (KafkaConsumer (consumer_conf ex_config))
   \<and> filter is_release (snd (close ex_lib (ex_consumer ex_output_handler KAFKA)))
       = [Flush (Some 5), ConsumerClose, CoreClose]
   \<and> fst (close ex_lib (ex_consumer ex_output_handler KAFKA)) = Inr ()
   \<and> filter is_release (snd (close ex_lib (ex_consumer ex_simple_handler KAFKA)))
       = [ConsumerClose, CoreClose]
   \<and> snd (start ex_lib (ex_consumer ex_output_handler KAFKA) [PollNone, PollRaise KeyboardInterrupt])
       = [Log INFO ''Starting consumer'', Poll, Poll, Log INFO ''Consumer interrupted'',
          Flush (Some 5), Log INFO ''Producer flushed'', ConsumerClose, Log INFO ''Consumer closed'',
          CoreClose, Log INFO ''Core closed'']"
proof -
  let ?c = "ex_consumer ex_output_handler KAFKA"
  let ?s = "ex_consumer ex_simple_handler KAFKA"
  have h: "consumer ?c = Some (KafkaConsumer (consumer_conf ex_config))"
    by (simp add: ex_consumer_def)
  have h': "consumer ?s = Some (KafkaConsumer (consumer_conf ex_config))"
    by (simp add: ex_consumer_def)
  have p: "producer ?c = Some (Producer (producer_conf ex_config))"
    by (simp add: ex_consumer_def ex_output_handler_detected)
  have p': "producer ?s = None"
    by (simp add: ex_consumer_def ex_simple_handler_detected)
  have l: "flush ex_lib (Some 5) = None" "consumer_close ex_lib = None"
    by (simp_all add: ex_lib_def)
  have k: "core_close (core ?c) = None"
    by (simp add: ex_consumer_def ex_core_def)
  have w: "while_loop ex_lib ?c 0 [PollNone, PollRaise KeyboardInterrupt]
             = (Inl (External KeyboardInterrupt), [Poll, Poll])"
    by (simp add: loop_body_def)
  note T = close_releases_in_order [OF h, of ex_lib]
  note T' = close_releases_in_order [OF h', of ex_lib]
  have a: "filter is_release (snd (close ex_lib ?c)) = [Flush (Some 5), ConsumerClose, CoreClose]"
    using T [THEN conjunct1] by (simp add: p l)
  have b: "fst (close ex_lib ?c) = Inr ()"
    using T [THEN conjunct2, THEN conjunct1] by (simp add: p l k)
  have c: "filter is_release (snd (close ex_lib ?s)) = [ConsumerClose, CoreClose]"
    using T' [THEN conjunct1] by (simp add: p' l)
  have cl: "snd (close ex_lib ?c) =
      [Flush (Some 5), Log INFO ''Producer flushed'', ConsumerClose, Log INFO ''Consumer closed'',
       CoreClose, Log INFO ''Core closed'']"
    by (simp add: close_def p h l k perform_unit_def log_def)
  from T [THEN conjunct2, THEN conjunct2] w
  obtain tr1 where l1: "list_all is_log tr1"
    and st: "snd (start ex_lib ?c [PollNone, PollRaise KeyboardInterrupt])
      = Log INFO ''Starting consumer'' # [Poll, Poll] @ tr1 @ snd (close ex_lib ?c)" by blast
  have "fst (start ex_lib ?c [PollNone, PollRaise KeyboardInterrupt]) = Some (Inr ())
      \<and> snd (start ex_lib ?c [PollNone, PollRaise KeyboardInterrupt])
      = Log INFO ''Starting consumer'' # [Poll, Poll] @ [Log INFO ''Consumer interrupted''] @ snd (close ex_lib ?c)"
    unfolding start_def by (simp only: h w option.case prod.case sum.case if_True Let_def fst_conv snd_conv)
      (simp add: case_prod_beta b)
  with st have d: "snd (start ex_lib ?c [PollNone, PollRaise KeyboardInterrupt])
       = [Log INFO ''Starting consumer'', Poll, Poll, Log INFO ''Consumer interrupted'',
          Flush (Some 5), Log INFO ''Producer flushed'', ConsumerClose, Log INFO ''Consumer closed'',
          CoreClose, Log INFO ''Core closed'']"
    by (simp add: cl)
  from h a b c d show ?thesis by (intro conjI)
qed

section \<open>Messages that do not decode\<close>

text \<open>
  Claim C4. For a polled message without error whose value is absent, or on which
  \<^verbatim>\<open>from_structured\<close> and \<^verbatim>\<open>from_binary\<close> both raise, \<^verbatim>\<open>_parse_cloud_event\<close> returns
  absent; the loop body performs the poll and the decoding only, with no call of the
  handler and no routing call, and the loop goes on to the next poll with the counter
  at zero.
\<close>

theorem undecodable_message_skipped:
  assumes ok: "msg_error m = None"
      and fails: "msg_value m = None
         \<or> (\<exists>v s1 s2. msg_value m = Some v
               \<and> from_structured lib (to_kafka_message m v) = Inl (Exception s1)
               \<and> from_binary lib (to_kafka_message m v) = Inl (Exception s2))"
  shows "fst (parse_cloud_event lib m) = Inr None
     \<and> loop_body lib c n (PollMsg m) = (Inr 0, Poll # snd (parse_cloud_event lib m))
     \<and> never is_handler_call (loop_body lib c n (PollMsg m))
     \<and> never is_routing (loop_body lib c n (PollMsg m))
     \<and> while_loop lib c n (PollMsg m # ps)
         = (fst (while_loop lib c 0 ps),
            Poll # snd (parse_cloud_event lib m) @ snd (while_loop lib c 0 ps))"
proof -
  from fails have absent: "fst (parse_cloud_event lib m) = Inr None"
    by (auto simp: parse_cloud_event_def Let_def)
  then obtain tr where p: "parse_cloud_event lib m = (Inr None, tr)"
    by (cases "parse_cloud_event lib m") simp
  have body: "loop_body lib c n (PollMsg m) = (Inr 0, Poll # snd (parse_cloud_event lib m))"
    by (simp add: loop_body_def ok p ret_def)
  have "only (\<lambda>a. is_decode a \<or> is_log a) (parse_cloud_event lib m)"
    by (rule only_parse_cloud_event)
  then have alph: "only (\<lambda>a. a = Poll \<or> is_decode a \<or> is_log a) (loop_body lib c n (PollMsg m))"
    by (simp add: body only_def list_all_iff)
  have nh: "never is_handler_call (loop_body lib c n (PollMsg m))"
    by (rule only_never [OF alph]) (auto dest: handler_call_kind)
  have nr: "never is_routing (loop_body lib c n (PollMsg m))"
    by (rule only_never [OF alph]) (auto dest: routing_kind)
  have "while_loop lib c n (PollMsg m # ps)
         = (fst (while_loop lib c 0 ps),
            Poll # snd (parse_cloud_event lib m) @ snd (while_loop lib c 0 ps))"
    by (simp add: body)
  with absent body nh nr show ?thesis by (intro conjI)
qed

theorem undecodable_message_skipped_witness:
  "msg_error (ex_msg (Some ''garbage'')) = None
   \<and> from_structured ex_lib (to_kafka_message (ex_msg (Some ''garbage'')) ''garbage'')
       = Inl (Exception ''not structured'')
   \<and> from_binary ex_lib (to_kafka_message (ex_msg (Some ''garbage'')) ''garbage'')
       = Inl (Exception ''not binary'')
   \<and> fst (parse_cloud_event ex_lib (ex_msg (Some ''garbage''))) = Inr None
   \<and> fst (loop_body ex_lib (ex_consumer ex_output_handler KAFKA) 3 (PollMsg (ex_msg (Some ''garbage'')))) = Inr 0
   \<and> never is_handler_call
        (loop_body ex_lib (ex_consumer ex_output_handler KAFKA) 3 (PollMsg (ex_msg (Some ''garbage''))))
   \<and> never is_routing
        (loop_body ex_lib (ex_consumer ex_output_handler KAFKA) 3 (PollMsg (ex_msg (Some ''garbage''))))
   \<and> fst (loop_body ex_lib (ex_consumer ex_output_handler KAFKA) 3 (PollMsg (ex_msg None))) = Inr 0"
proof -
  let ?m = "ex_msg (Some ''garbage'')"
  let ?c = "ex_consumer ex_output_handler KAFKA"
  have h1: "msg_error ?m = None" "msg_error (ex_msg None) = None"
    by (simp_all add: ex_msg_def)
  have v: "msg_value ?m = Some ''garbage''"
    by (simp add: ex_msg_def)
  have s: "from_structured ex_lib (to_kafka_message ?m ''garbage'') = Inl (Exception ''not structured'')"
    by (simp add: ex_lib_def to_kafka_message_def)
  have b: "from_binary ex_lib (to_kafka_message ?m ''garbage'') = Inl (Exception ''not binary'')"
    by (simp add: ex_lib_def to_kafka_message_def ex_msg_def)
  from v s b have h2: "msg_value ?m = None
         \<or> (\<exists>v s1 s2. msg_value ?m = Some v
               \<and> from_structured ex_lib (to_kafka_message ?m v) = Inl (Exception s1)
               \<and> from_binary ex_lib (to_kafka_message ?m v) = Inl (Exception s2))"
    by blast
  have h3: "msg_value (ex_msg None) = None
         \<or> (\<exists>v s1 s2. msg_value (ex_msg None) = Some v
               \<and> from_structured ex_lib (to_kafka_message (ex_msg None) v) = Inl (Exception s1)
               \<and> from_binary ex_lib (to_kafka_message (ex_msg None) v) = Inl (Exception s2))"
    by (simp add: ex_msg_def)
  note T = undecodable_message_skipped [OF h1(1) h2, of ?c 3 "[]"]
  note T' = undecodable_message_skipped [OF h1(2) h3, of ?c 3 "[]"]
  from T have a: "fst (parse_cloud_event ex_lib ?m) = Inr None" by (rule conjunct1)
  from T [THEN conjunct2, THEN conjunct1]
  have c: "fst (loop_body ex_lib ?c 3 (PollMsg ?m)) = Inr 0" by (simp only: fst_conv)
  from T' [THEN conjunct2, THEN conjunct1]
  have c': "fst (loop_body ex_lib ?c 3 (PollMsg (ex_msg None))) = Inr 0" by (simp only: fst_conv)
  from T have d: "never is_handler_call (loop_body ex_lib ?c 3 (PollMsg ?m))" by blast
  from T have e: "never is_routing (loop_body ex_lib ?c 3 (PollMsg ?m))" by blast
  from h1(1) s b a c d e c' show ?thesis by (intro conjI)
qed

section \<open>Handler classification\<close>

text \<open>
  Claim C5, as stated, fails: the classification is the test
  \<^verbatim>\<open>"CloudEvent" in str(return_type)\<close>, so a declared return type that denotes an event
  under another name is not recognised. The handler below is annotated
  \<^verbatim>\<open>-> Optional[OrderEvent]\<close> with \<^verbatim>\<open>OrderEvent\<close> a subclass of \<^verbatim>\<open>CloudEvent\<close>; it is
  classified as a simple handler, the constructor returns a consumer without a
  producer, and the event the handler returns is dropped without any routing.
\<close>

theorem subclass_annotation_classified_simple:
  "annotations ex_subclass_handler
     = Some [(''event'', Ann ''cloudevents.http.event.CloudEvent''),
             (''return'', Ann ''typing.Optional[shop.events.OrderEvent]'')]
   \<and> detect_output_handler ex_subclass_handler = False
   \<and> init ex_lib (ex_core KAFKA) ex_subclass_handler
       = (Inr (ex_consumer ex_subclass_handler KAFKA),
          [GetKafkaConfig, Log INFO ''Kafka configuration loaded'',
           NewConsumer (consumer_conf ex_config), Subscribe [''events''],
           Log INFO ''Subscribed to topic: events''])
   \<and> is_output_handler (ex_consumer ex_subclass_handler KAFKA) = False
   \<and> producer (ex_consumer ex_subclass_handler KAFKA) = None
   \<and> call ex_subclass_handler ex_event = Inr (Some ex_output)
   \<and> invoke_handler ex_lib (ex_consumer ex_subclass_handler KAFKA) ex_event
       = (Inr (), [CallHandler ex_event])"
proof -
  have d: "detect_output_handler ex_subclass_handler = False"
    by (simp add: detect_output_handler_def ex_subclass_handler_def sublist_Cons_right)
  have a: "annotations ex_subclass_handler
     = Some [(''event'', Ann ''cloudevents.http.event.CloudEvent''),
             (''return'', Ann ''typing.Optional[shop.events.OrderEvent]'')]"
    by (simp add: ex_subclass_handler_def)
  have i: "init ex_lib (ex_core KAFKA) ex_subclass_handler
       = (Inr (ex_consumer ex_subclass_handler KAFKA),
          [GetKafkaConfig, Log INFO ''Kafka configuration loaded'',
           NewConsumer (consumer_conf ex_config), Subscribe [''events''],
           Log INFO ''Subscribed to topic: events''])"
    by (simp add: init_def d ex_consumer_def ex_core_def ex_lib_def
          perform_def perform_unit_def log_def ret_def ex_config_def)
  have o: "is_output_handler (ex_consumer ex_subclass_handler KAFKA) = False"
    by (simp add: ex_consumer_def d)
  have p: "producer (ex_consumer ex_subclass_handler KAFKA) = None"
    by (simp add: ex_consumer_def d)
  have c: "call ex_subclass_handler ex_event = Inr (Some ex_output)"
    by (simp add: ex_subclass_handler_def)
  have h: "call (handler (ex_consumer ex_subclass_handler KAFKA)) ex_event = Inr (Some ex_output)"
    by (simp add: ex_consumer_def ex_subclass_handler_def)
  have v: "invoke_handler ex_lib (ex_consumer ex_subclass_handler KAFKA) ex_event
       = (Inr (), [CallHandler ex_event])"
    by (simp add: invoke_handler_def o h perform_def ret_def)
  from a d i o p c v show ?thesis by (intro conjI)
qed

text \<open>
  Claim C5, amended. \<^verbatim>\<open>__init__\<close> classifies the handler once and stores the result.
  A handler without annotations, without a return annotation, with the return
  annotation \<^verbatim>\<open>None\<close>, or with one whose text does not contain \<^verbatim>\<open>CloudEvent\<close>, is a
  simple handler: no producer is constructed in \<^verbatim>\<open>__init__\<close> nor later in \<^verbatim>\<open>start\<close>,
  and when the configuration query, the consumer's constructor and the subscription
  do not raise, \<^verbatim>\<open>__init__\<close> returns a consumer without a producer. A handler whose
  return annotation prints with \<^verbatim>\<open>CloudEvent\<close> in it (\<^verbatim>\<open>CloudEvent\<close>,
  \<^verbatim>\<open>Optional[CloudEvent]\<close>) is an output handler: when, besides, the producer's
  constructor does not raise, \<^verbatim>\<open>__init__\<close> returns a consumer with a producer for the
  configured broker, constructed once, after the subscription; and every consumer that
  \<^verbatim>\<open>__init__\<close> returns for it has this producer.
\<close>

theorem handler_classification:
  "(annotations h = None
      \<or> (\<exists>d. annotations h = Some d
             \<and> (map_of d ''return'' = None \<or> map_of d ''return'' = Some AnnNone
                 \<or> (\<exists>s. map_of d ''return'' = Some (Ann s) \<and> \<not> sublist ''CloudEvent'' s))) \<longrightarrow>
       \<not> detect_output_handler h
       \<and> never is_new_producer (init lib cr h)
       \<and> (\<forall>cfg. get_kafka_config cr = Inr cfg \<and> new_consumer lib (consumer_conf cfg) = None
                \<and> subscribe lib [topic cfg] = None \<longrightarrow>
            init lib cr h =
              (Inr \<lparr>core = cr, handler = h, consumer = Some (KafkaConsumer (consumer_conf cfg)),
                    producer = None, is_output_handler = False\<rparr>,
               [GetKafkaConfig, Log INFO ''Kafka configuration loaded'',
                NewConsumer (consumer_conf cfg), Subscribe [topic cfg],
                Log INFO (''Subscribed to topic: '' @ topic cfg)]))
       \<and> (\<forall>c polls. filter is_new_producer (snd (start lib c polls)) = []))
   \<and> (\<forall>d s. annotations h = Some d \<and> map_of d ''return'' = Some (Ann s)
            \<and> sublist ''CloudEvent'' s \<longrightarrow>
       detect_output_handler h
       \<and> (\<forall>cfg. get_kafka_config cr = Inr cfg \<and> new_consumer lib (consumer_conf cfg) = None
                \<and> subscribe lib [topic cfg] = None
                \<and> new_producer lib (producer_conf cfg) = None \<longrightarrow>
            init lib cr h =
              (Inr \<lparr>core = cr, handler = h, consumer = Some (KafkaConsumer (consumer_conf cfg)),
                    producer = Some (Producer (producer_conf cfg)), is_output_handler = True\<rparr>,
               [GetKafkaConfig, Log INFO ''Kafka configuration loaded'',
                NewConsumer (consumer_conf cfg), Subscribe [topic cfg],
                Log INFO (''Subscribed to topic: '' @ topic cfg),
                NewProducer (producer_conf cfg),
                Log INFO ''Kafka producer initialized for output events'']))
       \<and> (\<forall>c tr. init lib cr h = (Inr c, tr) \<longrightarrow>
            is_output_handler c
            \<and> (\<exists>cfg. get_kafka_config cr = Inr cfg
                  \<and> producer c = Some (Producer (producer_conf cfg))
                  \<and> filter is_new_producer tr = [NewProducer (producer_conf cfg)])))
   \<and> (\<forall>c tr. init lib cr h = (Inr c, tr) \<longrightarrow>
         is_output_handler c = detect_output_handler h \<and> handler c = h
         \<and> (producer c \<noteq> None) = detect_output_handler h)"
proof (intro conjI allI impI)
  assume a: "annotations h = None
      \<or> (\<exists>d. annotations h = Some d
             \<and> (map_of d ''return'' = None \<or> map_of d ''return'' = Some AnnNone
                 \<or> (\<exists>s. map_of d ''return'' = Some (Ann s) \<and> \<not> sublist ''CloudEvent'' s)))"
  then show simple: "\<not> detect_output_handler h"
    by (auto simp: detect_output_handler_def)
  then show "never is_new_producer (init lib cr h)"
    by (rule init_simple_no_producer)
  {
    fix cfg
    assume "get_kafka_config cr = Inr cfg \<and> new_consumer lib (consumer_conf cfg) = None
                \<and> subscribe lib [topic cfg] = None"
    then show "init lib cr h =
              (Inr \<lparr>core = cr, handler = h, consumer = Some (KafkaConsumer (consumer_conf cfg)),
                    producer = None, is_output_handler = False\<rparr>,
               [GetKafkaConfig, Log INFO ''Kafka configuration loaded'',
                NewConsumer (consumer_conf cfg), Subscribe [topic cfg],
                Log INFO (''Subscribed to topic: '' @ topic cfg)])"
      using init_returns_simple [OF simple] by blast
  }
  fix c polls
  show "filter is_new_producer (snd (start lib c polls)) = []"
    by (rule start_no_new_producer)
next
  fix d s
  assume a: "annotations h = Some d \<and> map_of d ''return'' = Some (Ann s) \<and> sublist ''CloudEvent'' s"
  then show out: "detect_output_handler h"
    by (simp add: detect_output_handler_def)
  {
    fix cfg
    assume "get_kafka_config cr = Inr cfg \<and> new_consumer lib (consumer_conf cfg) = None
                \<and> subscribe lib [topic cfg] = None
                \<and> new_producer lib (producer_conf cfg) = None"
    then show "init lib cr h =
              (Inr \<lparr>core = cr, handler = h, consumer = Some (KafkaConsumer (consumer_conf cfg)),
                    producer = Some (Producer (producer_conf cfg)), is_output_handler = True\<rparr>,
               [GetKafkaConfig, Log INFO ''Kafka configuration loaded'',
                NewConsumer (consumer_conf cfg), Subscribe [topic cfg],
                Log INFO (''Subscribed to topic: '' @ topic cfg),
                NewProducer (producer_conf cfg),
                Log INFO ''Kafka producer initialized for output events''])"
      using init_returns_output [OF out] by blast
  }
  fix c tr
  assume i: "init lib cr h = (Inr c, tr)"
  from init_result [OF i] out show "is_output_handler c" by simp
  from init_output_producer [OF i out]
  show "\<exists>cfg. get_kafka_config cr = Inr cfg
                  \<and> producer c = Some (Producer (producer_conf cfg))
                  \<and> filter is_new_producer tr = [NewProducer (producer_conf cfg)]" .
next
  fix c tr
  assume i: "init lib cr h = (Inr c, tr)"
  from init_result [OF i] show "is_output_handler c = detect_output_handler h" by simp
  from init_result [OF i] show "handler c = h" by simp
  from init_result [OF i] show "(producer c \<noteq> None) = detect_output_handler h" by simp
qed

theorem handler_classification_witness:
  "map_of [(''event'', Ann ''cloudevents.http.event.CloudEvent''), (''return'', AnnNone)] ''return''
      = Some AnnNone
   \<and> init ex_lib (ex_core KAFKA) ex_simple_handler
       = (Inr (ex_consumer ex_simple_handler KAFKA),
          [GetKafkaConfig, Log INFO ''Kafka configuration loaded'',
           NewConsumer (consumer_conf ex_config), Subscribe [''events''],
           Log INFO ''Subscribed to topic: events''])
   \<and> is_output_handler (ex_consumer ex_simple_handler KAFKA) = False
   \<and> producer (ex_consumer ex_simple_handler KAFKA) = None
   \<and> never is_new_producer (init ex_lib (ex_core KAFKA) ex_simple_handler)
   \<and> filter is_new_producer (snd (start ex_lib (ex_consumer ex_simple_handler KAFKA)
         [PollMsg (ex_msg (Some ''structured''))])) = []
   \<and> sublist ''CloudEvent'' ''typing.Optional[cloudevents.http.event.CloudEvent]''
   \<and> init ex_lib (ex_core KAFKA) ex_output_handler
       = (Inr (ex_consumer ex_output_handler KAFKA),
          [GetKafkaConfig, Log INFO ''Kafka configuration loaded'',
           NewConsumer (consumer_conf ex_config), Subscribe [''events''],
           Log INFO ''Subscribed to topic: events'',
           NewProducer [(''bootstrap.servers'', CStr ''localhost:9092'')],
           Log INFO ''Kafka producer initialized for output events''])
   \<and> is_output_handler (ex_consumer ex_output_handler KAFKA) = True
   \<and> producer (ex_consumer ex_output_handler KAFKA)
       = Some (Producer [(''bootstrap.servers'', CStr ''localhost:9092'')])"
proof -
  let ?d = "[(''event'', Ann ''cloudevents.http.event.CloudEvent''), (''return'', AnnNone)]"
  let ?d' = "[(''event'', Ann ''cloudevents.http.event.CloudEvent''),
              (''return'', Ann ''typing.Optional[cloudevents.http.event.CloudEvent]'')]"
  let ?s = "''typing.Optional[cloudevents.http.event.CloudEvent]''"
  let ?k = "ex_core KAFKA"
  have m: "map_of ?d ''return'' = Some AnnNone" by simp
  have "annotations ex_simple_handler = Some ?d"
    by (simp add: ex_simple_handler_def)
  with m have a: "annotations ex_simple_handler = None
      \<or> (\<exists>d. annotations ex_simple_handler = Some d
             \<and> (map_of d ''return'' = None \<or> map_of d ''return'' = Some AnnNone
                 \<or> (\<exists>s. map_of d ''return'' = Some (Ann s) \<and> \<not> sublist ''CloudEvent'' s)))"
    by blast
  have sub: "sublist ''CloudEvent'' ?s"
    by (simp add: sublist_Cons_right)
  have a': "annotations ex_output_handler = Some ?d' \<and> map_of ?d' ''return'' = Some (Ann ?s)
              \<and> sublist ''CloudEvent'' ?s"
    using sub by (simp add: ex_output_handler_def)
  have g: "get_kafka_config ?k = Inr ex_config \<and> new_consumer ex_lib (consumer_conf ex_config) = None
             \<and> subscribe ex_lib [topic ex_config] = None"
    by (simp add: ex_core_def ex_lib_def)
  have g': "get_kafka_config ?k = Inr ex_config \<and> new_consumer ex_lib (consumer_conf ex_config) = None
             \<and> subscribe ex_lib [topic ex_config] = None
             \<and> new_producer ex_lib (producer_conf ex_config) = None"
    by (simp add: ex_core_def ex_lib_def)
  note T = handler_classification [of ex_simple_handler ex_lib ?k]
  note T' = handler_classification [of ex_output_handler ex_lib ?k]
  from T [THEN conjunct1] a
  have n: "never is_new_producer (init ex_lib ?k ex_simple_handler)"
    and r: "\<forall>cfg. get_kafka_config ?k = Inr cfg \<and> new_consumer ex_lib (consumer_conf cfg) = None
                \<and> subscribe ex_lib [topic cfg] = None \<longrightarrow>
            init ex_lib ?k ex_simple_handler =
              (Inr \<lparr>core = ?k, handler = ex_simple_handler,
                    consumer = Some (KafkaConsumer (consumer_conf cfg)),
                    producer = None, is_output_handler = False\<rparr>,
               [GetKafkaConfig, Log INFO ''Kafka configuration loaded'',
                NewConsumer (consumer_conf cfg), Subscribe [topic cfg],
                Log INFO (''Subscribed to topic: '' @ topic cfg)])"
    and q: "\<forall>c polls. filter is_new_producer (snd (start ex_lib c polls)) = []"
    by blast+
  from r [rule_format, OF g]
  have i1: "init ex_lib ?k ex_simple_handler
       = (Inr (ex_consumer ex_simple_handler KAFKA),
          [GetKafkaConfig, Log INFO ''Kafka configuration loaded'',
           NewConsumer (consumer_conf ex_config), Subscribe [''events''],
           Log INFO ''Subscribed to topic: events''])"
    by (simp add: ex_consumer_def ex_simple_handler_detected ex_config_def)
  from T [THEN conjunct2, THEN conjunct2, rule_format, OF i1]
  have s1: "is_output_handler (ex_consumer ex_simple_handler KAFKA) = False"
    and s2: "producer (ex_consumer ex_simple_handler KAFKA) = None"
    by (simp_all add: ex_simple_handler_detected)
  from q have s3: "filter is_new_producer (snd (start ex_lib (ex_consumer ex_simple_handler KAFKA)
         [PollMsg (ex_msg (Some ''structured''))])) = []"
    by blast
  from T' [THEN conjunct2, THEN conjunct1] a'
  have r': "\<forall>cfg. get_kafka_config ?k = Inr cfg \<and> new_consumer ex_lib (consumer_conf cfg) = None
                \<and> subscribe ex_lib [topic cfg] = None
                \<and> new_producer ex_lib (producer_conf cfg) = None \<longrightarrow>
            init ex_lib ?k ex_output_handler =
              (Inr \<lparr>core = ?k, handler = ex_output_handler,
                    consumer = Some (KafkaConsumer (consumer_conf cfg)),
                    producer = Some (Producer (producer_conf cfg)), is_output_handler = True\<rparr>,
               [GetKafkaConfig, Log INFO ''Kafka configuration loaded'',
                NewConsumer (consumer_conf cfg), Subscribe [topic cfg],
                Log INFO (''Subscribed to topic: '' @ topic cfg),
                NewProducer (producer_conf cfg),
                Log INFO ''Kafka producer initialized for output events''])"
    by blast
  from r' [rule_format, OF g']
  have i2: "init ex_lib ?k ex_output_handler
       = (Inr (ex_consumer ex_output_handler KAFKA),
          [GetKafkaConfig, Log INFO ''Kafka configuration loaded'',
           NewConsumer (consumer_conf ex_config), Subscribe [''events''],
           Log INFO ''Subscribed to topic: events'',
           NewProducer [(''bootstrap.servers'', CStr ''localhost:9092'')],
           Log INFO ''Kafka producer initialized for output events''])"
    by (simp add: ex_consumer_def ex_output_handler_detected ex_config_def producer_conf_def)
  from T' [THEN conjunct2, THEN conjunct1] a' i2
  have o1: "is_output_handler (ex_consumer ex_output_handler KAFKA) = True"
    and o2: "\<exists>cfg. get_kafka_config ?k = Inr cfg
                  \<and> producer (ex_consumer ex_output_handler KAFKA) = Some (Producer (producer_conf cfg))"
    by blast+
  from o2 have o3: "producer (ex_consumer ex_output_handler KAFKA)
       = Some (Producer [(''bootstrap.servers'', CStr ''localhost:9092'')])"
    by (auto simp: ex_core_def producer_conf_def ex_config_def)
  from m i1 s1 s2 n s3 sub i2 o1 o3 show ?thesis by (intro conjI)
qed

section \<open>Routing only for a present output event\<close>

text \<open>
  Claim C6. For a consumer built by \<^verbatim>\<open>__init__\<close>: with an output handler,
  \<^verbatim>\<open>_invoke_handler\<close> makes a routing call if and only if the handler returns a present
  event; then the routing calls are those of \<^verbatim>\<open>_publish_output_event\<close> on that event,
  which begin with the serialization and, when it returns, the destination query. With
  a simple handler there is no routing call, whatever the handler returns.
\<close>

theorem routing_iff_output_event:
  assumes i: "init lib cr h = (Inr c, tr0)"
  shows "(is_output_handler c \<longrightarrow>
            (\<not> never is_routing (invoke_handler lib c ev)) = (\<exists>out. call h ev = Inr (Some out)))
       \<and> (\<not> is_output_handler c \<longrightarrow> never is_routing (invoke_handler lib c ev))
       \<and> (\<forall>out. is_output_handler c \<and> call h ev = Inr (Some out) \<longrightarrow>
            snd (invoke_handler lib c ev) = CallHandler ev # snd (publish_output_event lib c out)
            \<and> (\<exists>rest. snd (publish_output_event lib c out) = JsonDumps (event_dict out) # rest)
            \<and> (\<forall>js. json_dumps lib (event_dict out) = Inr js \<longrightarrow>
                  (\<exists>rest. snd (publish_output_event lib c out)
                            = JsonDumps (event_dict out) # GetOutputDestination js # rest)))"
proof (intro conjI allI impI)
  from init_result [OF i] have h: "handler c = h"
    and p: "(producer c \<noteq> None) = is_output_handler c" by simp_all
  {
    assume o: "is_output_handler c"
    with p obtain pr where pr: "producer c = Some pr" by auto
    show "(\<not> never is_routing (invoke_handler lib c ev)) = (\<exists>out. call h ev = Inr (Some out))"
    proof (cases "call h ev")
      case (Inl r)
      then show ?thesis by (simp add: invoke_handler_def o h perform_def)
    next
      case (Inr out)
      show ?thesis
      proof (cases out)
        case None
        with Inr show ?thesis by (simp add: invoke_handler_def o h perform_def ret_def)
      next
        case (Some e)
        from publish_output_event_begins [OF pr, of lib e]
        obtain rest where "snd (publish_output_event lib c e) = JsonDumps (event_dict e) # rest"
          by blast
        with Inr Some show ?thesis by (simp add: invoke_handler_def o h perform_def)
      qed
    qed
  }
  {
    assume "\<not> is_output_handler c"
    then show "never is_routing (invoke_handler lib c ev)"
      by (cases "call h ev") (simp_all add: invoke_handler_def h perform_def ret_def)
  }
  {
    fix out
    assume a: "is_output_handler c \<and> call h ev = Inr (Some out)"
    with p obtain pr where pr: "producer c = Some pr" by auto
    from a show "snd (invoke_handler lib c ev) = CallHandler ev # snd (publish_output_event lib c out)"
      by (simp add: invoke_handler_def h perform_def)
    from publish_output_event_begins [OF pr, of lib out]
    show "\<exists>rest. snd (publish_output_event lib c out) = JsonDumps (event_dict out) # rest"
      by blast
    fix js
    assume "json_dumps lib (event_dict out) = Inr js"
    with publish_output_event_begins [OF pr, of lib out]
    show "\<exists>rest. snd (publish_output_event lib c out)
                            = JsonDumps (event_dict out) # GetOutputDestination js # rest"
      by blast
  }
qed

theorem routing_iff_output_event_witness:
  "fst (init ex_lib (ex_core KAFKA) ex_output_handler) = Inr (ex_consumer ex_output_handler KAFKA)
   \<and> is_output_handler (ex_consumer ex_output_handler KAFKA)
   \<and> call ex_output_handler ex_event = Inr (Some ex_output)
   \<and> \<not> never is_routing (invoke_handler ex_lib (ex_consumer ex_output_handler KAFKA) ex_event)
   \<and> snd (invoke_handler ex_lib (ex_consumer ex_output_handler KAFKA) ex_event)
       = CallHandler ex_event # snd (publish_output_event ex_lib (ex_consumer ex_output_handler KAFKA) ex_output)
   \<and> call ex_output_handler (ex_event\<lparr>ce_type := ''other''\<rparr>) = Inr None
   \<and> never is_routing
        (invoke_handler ex_lib (ex_consumer ex_output_handler KAFKA) (ex_event\<lparr>ce_type := ''other''\<rparr>))
   \<and> fst (init ex_lib (ex_core KAFKA) ex_simple_handler) = Inr (ex_consumer ex_simple_handler KAFKA)
   \<and> never is_routing (invoke_handler ex_lib (ex_consumer ex_simple_handler KAFKA) ex_event)"
proof -
  let ?c = "ex_consumer ex_output_handler KAFKA"
  let ?s = "ex_consumer ex_simple_handler KAFKA"
  let ?o = "ex_event\<lparr>ce_type := ''other''\<rparr>"
  have i: "fst (init ex_lib (ex_core KAFKA) ex_output_handler) = Inr ?c"
    by (simp add: ex_init_output)
  have i': "fst (init ex_lib (ex_core KAFKA) ex_simple_handler) = Inr ?s"
    by (simp add: ex_init_simple)
  have o: "is_output_handler ?c"
    by (simp add: ex_consumer_def ex_output_handler_detected)
  have o': "\<not> is_output_handler ?s"
    by (simp add: ex_consumer_def ex_simple_handler_detected)
  have c1: "call ex_output_handler ex_event = Inr (Some ex_output)"
    by (simp add: ex_output_handler_def ex_event_def)
  have c2: "call ex_output_handler ?o = Inr None"
    by (simp add: ex_output_handler_def ex_event_def)
  note T1 = routing_iff_output_event [OF ex_init_output [of KAFKA], of ex_event]
  note T2 = routing_iff_output_event [OF ex_init_output [of KAFKA], of ?o]
  note T3 = routing_iff_output_event [OF ex_init_simple, of ex_event]
  from T1 [THEN conjunct1] o c1
  have a: "\<not> never is_routing (invoke_handler ex_lib ?c ex_event)" by blast
  from T1 [THEN conjunct2, THEN conjunct2] o c1
  have b: "snd (invoke_handler ex_lib ?c ex_event)
       = CallHandler ex_event # snd (publish_output_event ex_lib ?c ex_output)" by blast
  from T2 [THEN conjunct1] o c2
  have c: "never is_routing (invoke_handler ex_lib ?c ?o)" by simp
  from T3 [THEN conjunct2, THEN conjunct1] o'
  have d: "never is_routing (invoke_handler ex_lib ?s ex_event)" by blast
  from i o c1 a b c2 c i' d show ?thesis by (intro conjI)
qed

section \<open>The router, by destination kind\<close>

text \<open>
  Claim C7. After the serialization and the destination query: DISCARD returns without a
  publish call, with the log line of a discarded event; RABBITMQ and HTTP return without
  a publish call, with a warning; a kind outside the four, that is an object equal to
  none of the four members, makes \<^verbatim>\<open>_publish_output_event\<close> raise without a publish
  call: \<^verbatim>\<open>RuntimeError\<close> in the last branch, or the interpreter's \<^verbatim>\<open>AttributeError\<close>
  at the log line when the object has no \<^verbatim>\<open>name\<close>. Since the branches compare with
  \<^verbatim>\<open>==\<close>, an object that is not a member but equal to one and has a \<^verbatim>\<open>name\<close> takes
  that member's branch.
\<close>

theorem destination_kind_dispatch:
  assumes p: "producer c = Some p"
      and js: "json_dumps lib (event_dict ev) = Inr js"
      and d: "get_output_destination (core c) js = Inr dest"
  shows "(dest_type dest = DISCARD \<longrightarrow>
            publish_output_event lib c ev =
              (Inr (), [JsonDumps (event_dict ev), GetOutputDestination js,
                        Log INFO ''Routing output event'',
                        Log INFO (''Discarding output event: '' @ ce_type ev)]))
       \<and> (dest_type dest = RABBITMQ \<longrightarrow>
            publish_output_event lib c ev =
              (Inr (), [JsonDumps (event_dict ev), GetOutputDestination js,
                        Log INFO ''Routing output event'',
                        Log WARNING ''Destination type RABBITMQ not yet implemented, discarding event'']))
       \<and> (dest_type dest = HTTP \<longrightarrow>
            publish_output_event lib c ev =
              (Inr (), [JsonDumps (event_dict ev), GetOutputDestination js,
                        Log INFO ''Routing output event'',
                        Log WARNING ''Destination type HTTP not yet implemented, discarding event'']))
       \<and> (\<forall>v t n r. dest_type dest = Other v t (Some n) r
              \<and> v \<noteq> Some 0 \<and> v \<noteq> Some 1 \<and> v \<noteq> Some 2 \<and> v \<noteq> Some 3 \<longrightarrow>
            publish_output_event lib c ev =
              (Inl (RuntimeError (''Unknown destination type: '' @ r)),
               [JsonDumps (event_dict ev), GetOutputDestination js,
                Log INFO ''Routing output event'']))
       \<and> (\<forall>v t r. dest_type dest = Other v t None r \<longrightarrow>
            publish_output_event lib c ev =
              (Inl (AttributeError (quoted t @ '' object has no attribute '' @ quoted ''name'')),
               [JsonDumps (event_dict ev), GetOutputDestination js]))
       \<and> (\<forall>v t n r. dest_type dest = Other v t n r
              \<and> v \<noteq> Some 0 \<and> v \<noteq> Some 1 \<and> v \<noteq> Some 2 \<and> v \<noteq> Some 3 \<longrightarrow>
            (\<exists>e. fst (publish_output_event lib c ev) = Inl e \<and> is_Exception e))
       \<and> (\<forall>t n r. dest_type dest = Other (Some 3) t (Some n) r \<longrightarrow>
            publish_output_event lib c ev =
              (Inr (), [JsonDumps (event_dict ev), GetOutputDestination js,
                        Log INFO ''Routing output event'',
                        Log INFO (''Discarding output event: '' @ ce_type ev)]))
       \<and> (\<forall>v t n r. dest_type dest = Other v t (Some n) r \<and> (v = Some 1 \<or> v = Some 2) \<longrightarrow>
            publish_output_event lib c ev =
              (Inr (), [JsonDumps (event_dict ev), GetOutputDestination js,
                        Log INFO ''Routing output event'',
                        Log WARNING (''Destination type '' @ n
                                     @ '' not yet implemented, discarding event'')]))
       \<and> (\<forall>t n r. dest_type dest = Other (Some 0) t (Some n) r \<longrightarrow>
            publish_output_event lib c ev =
              (fst (publish_to_kafka lib c ev (target dest)),
               [JsonDumps (event_dict ev), GetOutputDestination js,
                Log INFO ''Routing output event'']
               @ snd (publish_to_kafka lib c ev (target dest))))
       \<and> (int_value (dest_type dest) \<noteq> Some 0 \<longrightarrow>
            filter is_produce (snd (publish_output_event lib c ev)) = [])"
  by (cases "dest_type dest" rule: name_attr.cases)
     (auto simp: publish_output_event_def p js d perform_def log_def raise_def ret_def)

theorem destination_kind_dispatch_witness:
  "json_dumps ex_lib (event_dict ex_output) = Inr ''specversiontypesourceidtime''
   \<and> publish_output_event ex_lib (ex_consumer ex_output_handler DISCARD) ex_output
       = (Inr (), [JsonDumps (event_dict ex_output),
                   GetOutputDestination ''specversiontypesourceidtime'',
                   Log INFO ''Routing output event'',
                   Log INFO ''Discarding output event: com.example.processed''])
   \<and> publish_output_event ex_lib (ex_consumer ex_output_handler RABBITMQ) ex_output
       = (Inr (), [JsonDumps (event_dict ex_output),
                   GetOutputDestination ''specversiontypesourceidtime'',
                   Log INFO ''Routing output event'',
                   Log WARNING ''Destination type RABBITMQ not yet implemented, discarding event''])
   \<and> publish_output_event ex_lib (ex_consumer ex_output_handler HTTP) ex_output
       = (Inr (), [JsonDumps (event_dict ex_output),
                   GetOutputDestination ''specversiontypesourceidtime'',
                   Log INFO ''Routing output event'',
                   Log WARNING ''Destination type HTTP not yet implemented, discarding event''])
   \<and> filter is_produce (snd (publish_output_event ex_lib (ex_consumer ex_output_handler HTTP) ex_output)) = []
   \<and> fst (publish_output_event ex_lib
            (ex_consumer ex_output_handler (Other (Some 4) ''Transport'' (Some ''GRPC'') ''4'')) ex_output)
       = Inl (RuntimeError ''Unknown destination type: 4'')
   \<and> fst (publish_output_event ex_lib
            (ex_consumer ex_output_handler (Other (Some 7) ''int'' None ''7'')) ex_output)
       = Inl (AttributeError (quoted ''int'' @ '' object has no attribute '' @ quoted ''name''))
   \<and> fst (publish_output_event ex_lib
            (ex_consumer ex_output_handler (Other (Some 0) ''int'' None ''0'')) ex_output)
       = Inl (AttributeError (quoted ''int'' @ '' object has no attribute '' @ quoted ''name''))
   \<and> filter is_produce
        (snd (publish_output_event ex_lib
               (ex_consumer ex_output_handler (Other (Some 0) ''Transport'' (Some ''QUEUE'') ''0''))
               ex_output))
       = [Produce ''out'' ''specversiontypesourceidtime'' ''processed-42'']"
proof -
  note j = ex_json_output
  note D = destination_kind_dispatch [OF ex_consumer_output(1) j ex_consumer_output(2)]
  have a: "publish_output_event ex_lib (ex_consumer ex_output_handler DISCARD) ex_output
       = (Inr (), [JsonDumps (event_dict ex_output),
                   GetOutputDestination ''specversiontypesourceidtime'',
                   Log INFO ''Routing output event'',
                   Log INFO ''Discarding output event: com.example.processed''])"
    using D [of DISCARD, THEN conjunct1] by (simp add: ex_output_def)
  have b: "publish_output_event ex_lib (ex_consumer ex_output_handler RABBITMQ) ex_output
       = (Inr (), [JsonDumps (event_dict ex_output),
                   GetOutputDestination ''specversiontypesourceidtime'',
                   Log INFO ''Routing output event'',
                   Log WARNING ''Destination type RABBITMQ not yet implemented, discarding event''])"
    using D [of RABBITMQ, THEN conjunct2, THEN conjunct1] by simp
  note H = D [of HTTP]
  have c: "publish_output_event ex_lib (ex_consumer ex_output_handler HTTP) ex_output
       = (Inr (), [JsonDumps (event_dict ex_output),
                   GetOutputDestination ''specversiontypesourceidtime'',
                   Log INFO ''Routing output event'',
                   Log WARNING ''Destination type HTTP not yet implemented, discarding event''])"
    using H [THEN conjunct2, THEN conjunct2, THEN conjunct1] by simp
  have d: "filter is_produce (snd (publish_output_event ex_lib (ex_consumer ex_output_handler HTTP) ex_output)) = []"
    using H [THEN conjunct2, THEN conjunct2, THEN conjunct2, THEN conjunct2, THEN conjunct2,
             THEN conjunct2, THEN conjunct2, THEN conjunct2, THEN conjunct2]
    by simp
  have e: "fst (publish_output_event ex_lib
            (ex_consumer ex_output_handler (Other (Some 4) ''Transport'' (Some ''GRPC'') ''4'')) ex_output)
       = Inl (RuntimeError ''Unknown destination type: 4'')"
    using D [of "Other (Some 4) ''Transport'' (Some ''GRPC'') ''4''",
             THEN conjunct2, THEN conjunct2, THEN conjunct2, THEN conjunct1]
    by simp
  have f: "fst (publish_output_event ex_lib
            (ex_consumer ex_output_handler (Other (Some 7) ''int'' None ''7'')) ex_output)
       = Inl (AttributeError (quoted ''int'' @ '' object has no attribute '' @ quoted ''name''))"
    using D [of "Other (Some 7) ''int'' None ''7''",
             THEN conjunct2, THEN conjunct2, THEN conjunct2, THEN conjunct2, THEN conjunct1]
    by simp
  have g: "fst (publish_output_event ex_lib
            (ex_consumer ex_output_handler (Other (Some 0) ''int'' None ''0'')) ex_output)
       = Inl (AttributeError (quoted ''int'' @ '' object has no attribute '' @ quoted ''name''))"
    using D [of "Other (Some 0) ''int'' None ''0''",
             THEN conjunct2, THEN conjunct2, THEN conjunct2, THEN conjunct2, THEN conjunct1]
    by simp
  have k: "publish_to_kafka ex_lib
             (ex_consumer ex_output_handler (Other (Some 0) ''Transport'' (Some ''QUEUE'') ''0''))
             ex_output ''out''
        = (Inr (), [JsonDumps (event_dict ex_output),
                    Produce ''out'' ''specversiontypesourceidtime'' ''processed-42'',
                    Flush None, Log INFO ''Published output event to Kafka topic: out''])"
    by (simp add: publish_to_kafka_def ex_consumer_output j perform_def perform_unit_def log_def)
       (simp add: ex_lib_def ex_output_def)
  have h: "filter is_produce
        (snd (publish_output_event ex_lib
               (ex_consumer ex_output_handler (Other (Some 0) ''Transport'' (Some ''QUEUE'') ''0''))
               ex_output))
       = [Produce ''out'' ''specversiontypesourceidtime'' ''processed-42'']"
    using D [of "Other (Some 0) ''Transport'' (Some ''QUEUE'') ''0''",
             THEN conjunct2, THEN conjunct2, THEN conjunct2, THEN conjunct2, THEN conjunct2,
             THEN conjunct2, THEN conjunct2, THEN conjunct2, THEN conjunct1]
    by (simp add: k)
  from j a b c d e f g h show ?thesis by (intro conjI)
qed

section \<open>Publishing to Kafka\<close>

text \<open>
  Claim C8 says that the value published to Kafka is the JSON object with the keys
  specversion, type, source, id and, each when present on the event, time,
  datacontenttype and data. The code writes \<^verbatim>\<open>data\<close> under the test
  \<^verbatim>\<open>"data" in event\<close>, and that test looks at the attributes, where the payload of an
  event is not: the dict is the four keys, \<^verbatim>\<open>time\<close> (always an attribute),
  \<^verbatim>\<open>datacontenttype\<close> when it is an attribute, and \<^verbatim>\<open>data\<close> only when the event has
  an attribute of that name. The dict does not depend on the payload. For the event of
  \<^verbatim>\<open>examples/ffi_output_example.py\<close>, which carries a payload, the one \<^verbatim>\<open>produce\<close> call
  (topic the target, key the id) publishes a value without the \<^verbatim>\<open>data\<close> key.
\<close>

theorem kafka_publish_without_payload:
  "event_dict ev =
     [(''specversion'', PyStr (ce_specversion ev)), (''type'', PyStr (ce_type ev)),
      (''source'', PyStr (ce_source ev)), (''id'', PyStr (ce_id ev))]
     @ [(''time'', ce_time ev)]
     @ (case map_of (ce_extensions ev) ''datacontenttype'' of None \<Rightarrow> []
        | Some v \<Rightarrow> [(''datacontenttype'', v)])
     @ (case map_of (ce_extensions ev) ''data'' of None \<Rightarrow> [] | Some v \<Rightarrow> [(''data'', v)])
   \<and> event_dict (ev\<lparr>ce_payload := p\<rparr>) = event_dict ev
   \<and> ce_payload ex_output = Some (PyDict [(''original_id'', PyStr ''42'')])
   \<and> event_dict ex_output
       = [(''specversion'', PyStr ''1.0''), (''type'', PyStr ''com.example.processed''),
          (''source'', PyStr ''ffi-output-example''), (''id'', PyStr ''processed-42''),
          (''time'', PyStr ''2024-01-01T00:00:01+00:00'')]
   \<and> filter is_produce
        (snd (publish_output_event ex_lib (ex_consumer ex_output_handler KAFKA) ex_output))
       = [Produce ''out'' ''specversiontypesourceidtime'' ''processed-42'']"
proof -
  have a: "event_dict (ev\<lparr>ce_payload := p\<rparr>) = event_dict ev"
    by (simp add: event_dict_def getitem_def attributes_def)
  have b: "ce_payload ex_output = Some (PyDict [(''original_id'', PyStr ''42'')])"
    by (simp add: ex_output_def)
  have c: "event_dict ex_output
       = [(''specversion'', PyStr ''1.0''), (''type'', PyStr ''com.example.processed''),
          (''source'', PyStr ''ffi-output-example''), (''id'', PyStr ''processed-42''),
          (''time'', PyStr ''2024-01-01T00:00:01+00:00'')]"
    by (simp add: event_dict_keys ex_output_def)
  have d: "filter is_produce
        (snd (publish_output_event ex_lib (ex_consumer ex_output_handler KAFKA) ex_output))
       = [Produce ''out'' ''specversiontypesourceidtime'' ''processed-42'']"
    by (simp add: publish_output_event_def publish_to_kafka_def ex_consumer_output ex_json_output
          perform_def perform_unit_def log_def ret_def)
       (simp add: ex_lib_def ex_output_def)
  from event_dict_keys [of ev] a b c d show ?thesis by (intro conjI)
qed

section \<open>A handler that raises\<close>

text \<open>
  Claim C9. When \<^verbatim>\<open>_invoke_handler\<close> raises an \<^verbatim>\<open>Exception\<close> on a decoded message, the
  loop body logs it and ends normally with the counter at zero, so the loop goes on to
  the next poll. The handler is called once and there is one poll. \<^verbatim>\<open>should_retry\<close>
  is asked once, with attempt 1, and \<^verbatim>\<open>calculate_backoff\<close> once when the answer is
  \<^verbatim>\<open>True\<close>; an \<^verbatim>\<open>Exception\<close> of either query is logged and the body still ends
  normally. (\<^verbatim>\<open>KeyboardInterrupt\<close> and \<^verbatim>\<open>SystemExit\<close> are not instances of
  \<^verbatim>\<open>Exception\<close>: they leave the loop.)
\<close>

theorem handler_failure_continues:
  assumes ok: "msg_error m = None"
      and dec: "fst (parse_cloud_event lib m) = Inr (Some ev)"
      and fails: "fst (invoke_handler lib c ev) = Inl e"
      and exc: "is_Exception e"
      and sr: "\<forall>r. should_retry (core c) (exn_str e) 1 = Inl r \<longrightarrow> is_Exception (External r)"
      and cb: "\<forall>r. calculate_backoff (core c) 1 = Inl r \<longrightarrow> is_Exception (External r)"
  shows "fst (loop_body lib c n (PollMsg m)) = Inr 0
     \<and> Log ERROR (''Handler error: '' @ exn_str e) \<in> set (snd (loop_body lib c n (PollMsg m)))
     \<and> filter is_handler_call (snd (loop_body lib c n (PollMsg m))) = [CallHandler ev]
     \<and> count_polls (snd (loop_body lib c n (PollMsg m))) = 1
     \<and> filter is_retry_query (snd (loop_body lib c n (PollMsg m))) =
          ShouldRetry (exn_str e) 1 #
          (if should_retry (core c) (exn_str e) 1 = Inr True then [CalculateBackoff 1] else [])
     \<and> (\<forall>s. should_retry (core c) (exn_str e) 1 = Inl (Exception s) \<longrightarrow>
           Log ERROR (''Error checking retry: '' @ s) \<in> set (snd (loop_body lib c n (PollMsg m))))
     \<and> (\<forall>s. should_retry (core c) (exn_str e) 1 = Inr True
              \<and> calculate_backoff (core c) 1 = Inl (Exception s) \<longrightarrow>
           Log ERROR (''Error checking retry: '' @ s) \<in> set (snd (loop_body lib c n (PollMsg m))))
     \<and> fst (while_loop lib c n (PollMsg m # ps)) = fst (while_loop lib c 0 ps)"
proof -
  obtain trp where p: "parse_cloud_event lib m = (Inr (Some ev), trp)"
    using dec by (cases "parse_cloud_event lib m") simp
  let ?trh = "snd (invoke_handler lib c ev)"
  let ?trc = "snd (check_retry c e)"
  have cr: "fst (check_retry c e) = Inr ()"
    by (simp add: check_retry_cases [OF sr cb])
  have cu: "call_user_handler lib c ev =
              (Inr (), ?trh @ Log ERROR (''Handler error: '' @ exn_str e) # ?trc)"
    using call_user_handler_failure [OF fails exc] cr by simp
  have body: "loop_body lib c n (PollMsg m) =
      (Inr 0, Poll # trp @ ?trh @ Log ERROR (''Handler error: '' @ exn_str e) # ?trc)"
    by (simp add: loop_body_def ok p cu ret_def)
  have trp: "filter is_handler_call trp = []" "filter is_retry_query trp = []" "count_polls trp = 0"
    using parse_cloud_event_quiet [of lib m] by (simp_all add: p)
  have trc: "?trc =
      ShouldRetry (exn_str e) 1 #
      (case should_retry (core c) (exn_str e) 1 of
         Inl r \<Rightarrow> [Log ERROR (''Error checking retry: '' @ exn_str (External r))]
       | Inr False \<Rightarrow> []
       | Inr True \<Rightarrow>
           CalculateBackoff 1 #
           (case calculate_backoff (core c) 1 of
              Inl r \<Rightarrow> [Log ERROR (''Error checking retry: '' @ exn_str (External r))]
            | Inr b \<Rightarrow> [Log WARNING ''Would retry after backoff (not implemented in PoC)'']))"
    by (simp add: check_retry_cases [OF sr cb])
  have c1: "fst (loop_body lib c n (PollMsg m)) = Inr 0"
    by (simp add: body)
  have c2: "Log ERROR (''Handler error: '' @ exn_str e) \<in> set (snd (loop_body lib c n (PollMsg m)))"
    by (simp add: body)
  have trc_h: "filter is_handler_call ?trc = []"
    by (simp add: trc split: sum.splits bool.splits)
  have c3: "filter is_handler_call (snd (loop_body lib c n (PollMsg m))) = [CallHandler ev]"
    by (simp add: body trp invoke_handler_calls_once trc_h)
  have trc_p: "count_polls ?trc = 0"
    by (simp add: trc count_polls_def split: sum.splits bool.splits)
  have c4: "count_polls (snd (loop_body lib c n (PollMsg m))) = 1"
    using trp(3) trc_p invoke_handler_no_poll [of lib c ev]
    by (simp add: body count_polls_def)
  have trc_q: "filter is_retry_query ?trc =
          ShouldRetry (exn_str e) 1 #
          (if should_retry (core c) (exn_str e) 1 = Inr True then [CalculateBackoff 1] else [])"
    by (simp add: trc split: sum.splits bool.splits)
  have c5: "filter is_retry_query (snd (loop_body lib c n (PollMsg m))) =
          ShouldRetry (exn_str e) 1 #
          (if should_retry (core c) (exn_str e) 1 = Inr True then [CalculateBackoff 1] else [])"
    using trc_q by (simp add: body trp invoke_handler_no_retry_query)
  have c6: "\<forall>s. should_retry (core c) (exn_str e) 1 = Inl (Exception s) \<longrightarrow>
           Log ERROR (''Error checking retry: '' @ s) \<in> set (snd (loop_body lib c n (PollMsg m)))"
    by (simp add: body trc)
  have c7: "\<forall>s. should_retry (core c) (exn_str e) 1 = Inr True
              \<and> calculate_backoff (core c) 1 = Inl (Exception s) \<longrightarrow>
           Log ERROR (''Error checking retry: '' @ s) \<in> set (snd (loop_body lib c n (PollMsg m)))"
    by (simp add: body trc)
  have c8: "fst (while_loop lib c n (PollMsg m # ps)) = fst (while_loop lib c 0 ps)"
    by (simp add: body)
  from c1 c2 c3 c4 c5 c6 c7 c8 show ?thesis by (intro conjI)
qed

theorem handler_failure_continues_witness:
  "msg_error (ex_msg (Some ''structured'')) = None
   \<and> fst (parse_cloud_event ex_lib (ex_msg (Some ''structured''))) = Inr (Some ex_event)
   \<and> fst (invoke_handler ex_lib (ex_consumer ex_failing_handler KAFKA) ex_event)
       = Inl (External (Exception ''boom''))
   \<and> fst (loop_body ex_lib (ex_consumer ex_failing_handler KAFKA) 2 (PollMsg (ex_msg (Some ''structured''))))
       = Inr 0
   \<and> Log ERROR ''Handler error: boom''
       \<in> set (snd (loop_body ex_lib (ex_consumer ex_failing_handler KAFKA) 2
                     (PollMsg (ex_msg (Some ''structured'')))))
   \<and> filter is_handler_call
        (snd (loop_body ex_lib (ex_consumer ex_failing_handler KAFKA) 2
                (PollMsg (ex_msg (Some ''structured'')))))
       = [CallHandler ex_event]
   \<and> count_polls
        (snd (loop_body ex_lib (ex_consumer ex_failing_handler KAFKA) 2
                (PollMsg (ex_msg (Some ''structured''))))) = 1
   \<and> filter is_retry_query
        (snd (loop_body ex_lib (ex_consumer ex_failing_handler KAFKA) 2
                (PollMsg (ex_msg (Some ''structured'')))))
       = [ShouldRetry ''boom'' 1, CalculateBackoff 1]
   \<and> Log ERROR ''Error checking retry: no backoff''
       \<in> set (snd (loop_body ex_lib (ex_consumer ex_failing_handler KAFKA) 2
                     (PollMsg (ex_msg (Some ''structured'')))))
   \<and> fst (invoke_handler ex_lib (ex_consumer ex_output_handler (Other (Some 4) ''Transport'' (Some ''GRPC'') ''4'')) ex_event)
       = Inl (RuntimeError ''Unknown destination type: 4'')
   \<and> fst (loop_body ex_lib (ex_consumer ex_output_handler (Other (Some 4) ''Transport'' (Some ''GRPC'') ''4'')) 2
             (PollMsg (ex_msg (Some ''structured'')))) = Inr 0"
proof -
  let ?m = "ex_msg (Some ''structured'')"
  let ?c = "ex_consumer ex_failing_handler KAFKA"
  let ?e = "External (Exception ''boom'')"
  let ?c' = "ex_consumer ex_output_handler (Other (Some 4) ''Transport'' (Some ''GRPC'') ''4'')"
  let ?e' = "RuntimeError ''Unknown destination type: 4''"
  have ok: "msg_error ?m = None"
    by (simp add: ex_msg_def)
  have dec: "fst (parse_cloud_event ex_lib ?m) = Inr (Some ex_event)"
    by (simp add: parse_cloud_event_def ex_msg_def ex_lib_def to_kafka_message_def)
  have fails: "fst (invoke_handler ex_lib ?c ex_event) = Inl ?e"
    by (simp add: invoke_handler_def ex_consumer_def ex_failing_handler_detected perform_def)
       (simp add: ex_failing_handler_def)
  have exc: "is_Exception ?e" by simp
  have sr: "\<forall>r. should_retry (core ?c) (exn_str ?e) 1 = Inl r \<longrightarrow> is_Exception (External r)"
    by (simp add: ex_consumer_def ex_core_def)
  have cb: "\<forall>r. calculate_backoff (core ?c) 1 = Inl r \<longrightarrow> is_Exception (External r)"
    by (simp add: ex_consumer_def ex_core_def)
  have srv: "should_retry (core ?c) (exn_str ?e) 1 = Inr True"
    by (simp add: ex_consumer_def ex_core_def)
  have cbv: "calculate_backoff (core ?c) 1 = Inl (Exception ''no backoff'')"
    by (simp add: ex_consumer_def ex_core_def)
  note T = handler_failure_continues [OF ok dec fails exc sr cb, of 2 "[]"]
  have a: "fst (loop_body ex_lib ?c 2 (PollMsg ?m)) = Inr 0"
    by (rule T [THEN conjunct1])
  have b: "Log ERROR ''Handler error: boom'' \<in> set (snd (loop_body ex_lib ?c 2 (PollMsg ?m)))"
    using T [THEN conjunct2, THEN conjunct1] by simp
  have c: "filter is_handler_call (snd (loop_body ex_lib ?c 2 (PollMsg ?m))) = [CallHandler ex_event]"
    by (rule T [THEN conjunct2, THEN conjunct2, THEN conjunct1])
  have d: "count_polls (snd (loop_body ex_lib ?c 2 (PollMsg ?m))) = 1"
    by (rule T [THEN conjunct2, THEN conjunct2, THEN conjunct2, THEN conjunct1])
  have e: "filter is_retry_query (snd (loop_body ex_lib ?c 2 (PollMsg ?m)))
       = [ShouldRetry ''boom'' 1, CalculateBackoff 1]"
    using T [THEN conjunct2, THEN conjunct2, THEN conjunct2, THEN conjunct2, THEN conjunct1] srv
    by simp
  have f: "Log ERROR ''Error checking retry: no backoff'' \<in> set (snd (loop_body ex_lib ?c 2 (PollMsg ?m)))"
    using T [THEN conjunct2, THEN conjunct2, THEN conjunct2, THEN conjunct2, THEN conjunct2,
             THEN conjunct2, THEN conjunct1, rule_format, of "''no backoff''"] srv cbv
    by simp
  have io: "is_output_handler ?c'"
    by (simp add: ex_consumer_def ex_output_handler_detected)
  have hc: "call (handler ?c') ex_event = Inr (Some ex_output)"
    by (simp add: ex_consumer_def ex_output_handler_def ex_event_def)
  have po: "fst (publish_output_event ex_lib ?c' ex_output) = Inl ?e'"
    by (simp add: publish_output_event_def ex_consumer_output ex_json_output perform_def
          log_def raise_def)
  have fails': "fst (invoke_handler ex_lib ?c' ex_event) = Inl ?e'"
    by (simp add: invoke_handler_def io hc perform_def po)
  have exc': "is_Exception ?e'" by simp
  have sr': "\<forall>r. should_retry (core ?c') (exn_str ?e') 1 = Inl r \<longrightarrow> is_Exception (External r)"
    by (simp add: ex_consumer_def ex_core_def)
  have cb': "\<forall>r. calculate_backoff (core ?c') 1 = Inl r \<longrightarrow> is_Exception (External r)"
    by (simp add: ex_consumer_def ex_core_def)
  have g: "fst (loop_body ex_lib ?c' 2 (PollMsg ?m)) = Inr 0"
    by (rule handler_failure_continues [OF ok dec fails' exc' sr' cb', of 2 "[]", THEN conjunct1])
  from ok dec fails a b c d e f fails' g show ?thesis by (intro conjI)
qed

section \<open>The producer of an output handler\<close>

text \<open>
  Claim C10. A consumer built by \<^verbatim>\<open>__init__\<close> for an output handler has a producer.
  The consumer record is never changed, and neither \<^verbatim>\<open>_publish_output_event\<close> nor
  \<^verbatim>\<open>_publish_to_kafka\<close> nor \<^verbatim>\<open>_invoke_handler\<close> nor \<^verbatim>\<open>start\<close> ever ends with the
  consumer's own \<^verbatim>\<open>RuntimeError\<close> "Producer not initialized".
\<close>

theorem producer_initialized:
  assumes i: "init lib cr h = (Inr c, tr0)"
  shows "(is_output_handler c \<longrightarrow>
            producer c \<noteq> None
            \<and> (\<forall>out. fst (publish_output_event lib c out) \<noteq> Inl (RuntimeError ''Producer not initialized''))
            \<and> (\<forall>out t. fst (publish_to_kafka lib c out t) \<noteq> Inl (RuntimeError ''Producer not initialized'')))
       \<and> (\<forall>ev. fst (invoke_handler lib c ev) \<noteq> Inl (RuntimeError ''Producer not initialized''))
       \<and> (\<forall>polls. fst (start lib c polls) \<noteq> Some (Inl (RuntimeError ''Producer not initialized'')))"
proof -
  from init_result [OF i] have p: "(producer c \<noteq> None) = is_output_handler c"
    and k: "consumer c \<noteq> None" by simp_all
  have a: "is_output_handler c \<longrightarrow>
            producer c \<noteq> None
            \<and> (\<forall>out. fst (publish_output_event lib c out) \<noteq> Inl (RuntimeError ''Producer not initialized''))
            \<and> (\<forall>out t. fst (publish_to_kafka lib c out t) \<noteq> Inl (RuntimeError ''Producer not initialized''))"
  proof
    assume "is_output_handler c"
    with p obtain pr where pr: "producer c = Some pr" by auto
    then show "producer c \<noteq> None
            \<and> (\<forall>out. fst (publish_output_event lib c out) \<noteq> Inl (RuntimeError ''Producer not initialized''))
            \<and> (\<forall>out t. fst (publish_to_kafka lib c out t) \<noteq> Inl (RuntimeError ''Producer not initialized''))"
      using publish_output_event_initialized [OF pr] publish_to_kafka_initialized [OF pr] by simp
  qed
  have b: "\<forall>ev. fst (invoke_handler lib c ev) \<noteq> Inl (RuntimeError ''Producer not initialized'')"
    using invoke_handler_initialized [of c lib] p by simp
  have c: "\<forall>polls. fst (start lib c polls) \<noteq> Some (Inl (RuntimeError ''Producer not initialized''))"
  proof (intro allI notI)
    fix polls
    assume s: "fst (start lib c polls) = Some (Inl (RuntimeError ''Producer not initialized''))"
    from k obtain kc where "consumer c = Some kc" by auto
    from start_escapes [OF this s] show False by simp
  qed
  from a b c show ?thesis by (intro conjI)
qed

theorem producer_initialized_witness:
  "fst (init ex_lib (ex_core KAFKA) ex_output_handler) = Inr (ex_consumer ex_output_handler KAFKA)
   \<and> is_output_handler (ex_consumer ex_output_handler KAFKA)
   \<and> producer (ex_consumer ex_output_handler KAFKA) \<noteq> None
   \<and> fst (publish_output_event ex_lib (ex_consumer ex_output_handler KAFKA) ex_output)
       \<noteq> Inl (RuntimeError ''Producer not initialized'')
   \<and> fst (publish_to_kafka ex_lib (ex_consumer ex_output_handler KAFKA) ex_output ''out'')
       \<noteq> Inl (RuntimeError ''Producer not initialized'')
   \<and> fst (invoke_handler ex_lib (ex_consumer ex_output_handler KAFKA) ex_event)
       \<noteq> Inl (RuntimeError ''Producer not initialized'')
   \<and> fst (start ex_lib (ex_consumer ex_output_handler KAFKA)
             [PollMsg (ex_msg (Some ''structured'')), PollRaise KeyboardInterrupt])
       \<noteq> Some (Inl (RuntimeError ''Producer not initialized''))"
proof -
  let ?c = "ex_consumer ex_output_handler KAFKA"
  have i: "fst (init ex_lib (ex_core KAFKA) ex_output_handler) = Inr ?c"
    by (simp add: ex_init_output)
  have o: "is_output_handler ?c"
    by (simp add: ex_consumer_def ex_output_handler_detected)
  note T = producer_initialized [OF ex_init_output [of KAFKA]]
  from T [THEN conjunct1] o have a: "producer ?c \<noteq> None"
    and b: "fst (publish_output_event ex_lib ?c ex_output) \<noteq> Inl (RuntimeError ''Producer not initialized'')"
    and c: "fst (publish_to_kafka ex_lib ?c ex_output ''out'') \<noteq> Inl (RuntimeError ''Producer not initialized'')"
    by blast+
  from T [THEN conjunct2, THEN conjunct1]
  have d: "fst (invoke_handler ex_lib ?c ex_event) \<noteq> Inl (RuntimeError ''Producer not initialized'')"
    by blast
  from T [THEN conjunct2, THEN conjunct2]
  have e: "fst (start ex_lib ?c [PollMsg (ex_msg (Some ''structured'')), PollRaise KeyboardInterrupt])
       \<noteq> Some (Inl (RuntimeError ''Producer not initialized''))"
    by blast
  from i o a b c d e show ?thesis by (intro conjI)
qed

end
